theory Spec2Isabelle
  imports Main "HOL-Library.Word"
begin

section \<open>The CQL value decoder of \<^verbatim>\<open>ccassandra/cql_types.cpp\<close>\<close>

text \<open>
  A shallow embedding of the type-driven decoder: the \<^verbatim>\<open>Deserialize\<close> methods of the
  \<^verbatim>\<open>CqlType\<close> hierarchy, the subtype resolution \<^verbatim>\<open>ResolveSubtypes\<close> and the
  \<^verbatim>\<open>FromPython\<close> constructors of the two composite types.

  Conventions of the embedding.
  \<^item> A \<^verbatim>\<open>PyObject*\<close> result that is \<^verbatim>\<open>NULL\<close> with a Python exception set is
    \<open>Inl\<close> of that exception; a non-\<^verbatim>\<open>NULL\<close> result is \<open>Inr\<close> of the object.
  \<^item> A \<^verbatim>\<open>Buffer&\<close> argument is passed in and returned: every decoder returns its
    result together with the buffer as it has left it.
  \<^item> \<^verbatim>\<open>std::size_t\<close> and \<^verbatim>\<open>Py_ssize_t\<close> are 64 bits wide.
  \<^item> Exhaustion of memory (a failing \<^verbatim>\<open>new\<close>, a failing allocation of a Python
    object of valid size) and the reference counts of Python objects are not modelled.
\<close>

subsection \<open>Machine types and exceptions\<close>

type_synonym byte = "8 word"
type_synonym int16_t = "16 word"
type_synonym int32_t = "32 word"
type_synonym int64_t = "64 word"
type_synonym size_t = "64 word"

text \<open>
  The Python exceptions the code sets. In the words of the specification:
  \<open>EOFError\<close> is the Truncated failure, \<open>ValueError\<close> and \<open>TypeError\<close> are Malformed
  failures, \<open>OSError\<close> is the fatal OS-level error of the address conversion.
  \<open>SystemError\<close> is what \<^verbatim>\<open>PyErr_BadInternalCall\<close> sets, \<open>AttributeError\<close> what a
  failing \<^verbatim>\<open>PyObject_GetAttrString\<close> sets; \<open>UnicodeDecodeError\<close> and
  \<open>MaterializerError\<close> come from the external constructors.
\<close>

datatype error =
    EOFError
  | ValueError
  | TypeError
  | OSError
  | SystemError
  | AttributeError
  | UnicodeDecodeError
  | MaterializerError

subsection \<open>Buffer\<close>

text \<open>
  Modelled from the spec: the class \<^verbatim>\<open>Buffer\<close> is declared in a header that is not
  among the sources. A buffer is the part of its window that has not been consumed.
  \<^verbatim>\<open>Consume(n)\<close> returns the next \<open>n\<close> bytes and advances the cursor, or fails (a
  \<^verbatim>\<open>NULL\<close> pointer, here \<open>None\<close>, the buffer unchanged) if fewer than \<open>n\<close> bytes
  remain; \<^verbatim>\<open>Residual()\<close> is the remaining byte count.
\<close>

type_synonym Buffer = "byte list"

definition Residual :: "Buffer \<Rightarrow> nat" where
  "Residual buffer = length buffer"

definition Consume :: "nat \<Rightarrow> Buffer \<Rightarrow> (byte list \<times> Buffer) option" where
  "Consume n buffer =
     (if n \<le> length buffer then Some (take n buffer, drop n buffer) else None)"

subsection \<open>Primitive codec\<close>

text \<open>
  The unsigned big-endian reading of a byte sequence, as a natural number and as a
  machine word (where the octets shifted out at the top are lost).
\<close>

definition be_uint :: "byte list \<Rightarrow> nat" where
  "be_uint bs = foldl (\<lambda>acc b. acc * 256 + unat b) 0 bs"

definition be_word :: "byte list \<Rightarrow> 'a::len word" where
  "be_word bs = foldl (\<lambda>acc b. acc * 256 + ucast b) 0 bs"

text \<open>
  Modelled from the spec: \<^verbatim>\<open>UnpackInt16\<close>, \<^verbatim>\<open>UnpackInt32\<close> and \<^verbatim>\<open>UnpackInt64\<close> of
  \<^verbatim>\<open>marshal.hpp\<close>, which is not among the sources: fixed-width big-endian signed
  integers. The result is the machine word; \<open>sint\<close> reads its signed value.
\<close>

definition UnpackInt16 :: "byte list \<Rightarrow> int16_t" where
  "UnpackInt16 data = be_word data"

definition UnpackInt32 :: "byte list \<Rightarrow> int32_t" where
  "UnpackInt32 data = be_word data"

definition UnpackInt64 :: "byte list \<Rightarrow> int64_t" where
  "UnpackInt64 data = be_word data"

text \<open>
  Modelled from the spec: the value of \<^verbatim>\<open>UnmarshalVarint(data, size)\<close> of
  \<^verbatim>\<open>marshal.hpp\<close>: a two's-complement big-endian signed integer of arbitrary
  precision, 0 on an empty window.
\<close>

definition varint_value :: "byte list \<Rightarrow> int" where
  "varint_value data =
     (case data of
        [] \<Rightarrow> 0
      | b # _ \<Rightarrow>
          (if 128 \<le> unat b then int (be_uint data) - 256 ^ length data
           else int (be_uint data)))"

subsection \<open>Values\<close>

text \<open>
  The objects a decoder returns, tagged as the value model of the specification tags
  them. A tuple and a list are sequences of slots: \<^verbatim>\<open>PyTuple_New\<close> and
  \<^verbatim>\<open>PyList_New\<close> return a sequence of \<^verbatim>\<open>NULL\<close> slots, and a slot that is never set
  stays \<^verbatim>\<open>NULL\<close>, here \<open>None\<close>. \<open>Null\<close> is \<^verbatim>\<open>Py_None\<close>. The two float values keep the
  IEEE-754 bit pattern read from the wire.
\<close>

datatype Value =
    Null
  | Boolean bool
  | Int32 int
  | Int64 int
  | Float32 "32 word"
  | Float64 "64 word"
  | Bytes "byte list"
  | Text string
  | RawUuid "byte list"
  | InetText string
  | TimestampMs int
  | Decimal int int
  | Integer int
  | Tuple "Value option list"
  | List "Value option list"

type_synonym result = "(error + Value) \<times> Buffer"

text \<open>A \<^verbatim>\<open>Deserialize\<close> method: the buffer and the protocol version (a C \<^verbatim>\<open>int\<close>,
  only ever compared with 3).\<close>

type_synonym decoder = "Buffer \<Rightarrow> int \<Rightarrow> result"

text \<open>
  \<^verbatim>\<open>PyList_New\<close> takes a \<^verbatim>\<open>Py_ssize_t\<close>: the \<^verbatim>\<open>std::size_t\<close> that the code passes
  is read as a signed number, and a negative size is refused with
  \<^verbatim>\<open>PyErr_BadInternalCall\<close>. \<^verbatim>\<open>PyTuple_New\<close> is only called with the size of a
  \<^verbatim>\<open>std::vector\<close> of pointers, which is below \<open>2 ^ 61\<close> and so never negative as a
  \<^verbatim>\<open>Py_ssize_t\<close>. \<^verbatim>\<open>PyTuple_SetItem\<close> and \<^verbatim>\<open>PyList_SetItem\<close> store into a slot in
  range and leave the sequence as it is otherwise (\<open>xs[i := v]\<close> does both).
\<close>

definition PyTuple_New :: "nat \<Rightarrow> Value option list" where
  "PyTuple_New n = replicate n None"

definition PyList_New :: "size_t \<Rightarrow> error + Value option list" where
  "PyList_New n = (if sint n < 0 then Inl SystemError else Inr (replicate (unat n) None))"

definition PyTuple_SetItem :: "Value option list \<Rightarrow> nat \<Rightarrow> Value \<Rightarrow> Value option list" where
  "PyTuple_SetItem tuple i v = tuple[i := Some v]"

definition PyList_SetItem :: "Value option list \<Rightarrow> nat \<Rightarrow> Value \<Rightarrow> Value option list" where
  "PyList_SetItem list i v = list[i := Some v]"

subsection \<open>Text formatting\<close>

text \<open>
  Python's \<^verbatim>\<open>"%d"\<close> applied to an integer of any size: the decimal digits, with a
  leading minus sign for a negative number.
\<close>

fun dec_digits :: "nat \<Rightarrow> string" where
  "dec_digits n =
     (if n < 10 then [''0123456789'' ! n]
      else dec_digits (n div 10) @ [''0123456789'' ! (n mod 10)])"

declare dec_digits.simps [simp del]

definition py_format_d :: "int \<Rightarrow> string" where
  "py_format_d i = (if i < 0 then CHR ''-'' # dec_digits (nat (- i)) else dec_digits (nat i))"

subsection \<open>External collaborators\<close>

datatype address_family = AF_INET | AF_INET6

text \<open>
  What the decoder calls outside of the repository, as parameters of the model:
  \<^item> \<open>inet_ntop\<close>: the C library's conversion of a network address to its text
    presentation, \<open>None\<close> when it returns \<^verbatim>\<open>NULL\<close>;
  \<^item> \<open>utf8_decode\<close>: \<^verbatim>\<open>PyString_AsDecodedObject(str, "utf-8", "strict")\<close>;
  \<^item> \<open>pythonUuidType\<close>: the call \<^verbatim>\<open>_pythonUuidType(None, str)\<close>;
  \<^item> \<open>pythonDatetimeUtcFromTimestamp\<close>: the call of
    \<^verbatim>\<open>_pythonDatetimeUtcFromTimestamp\<close> on the float \<^verbatim>\<open>double(timestampMs) / 1000.0\<close>,
    as a function of \<^verbatim>\<open>timestampMs\<close> (the floating-point division is not modelled);
  \<^item> \<open>pythonDecimalType\<close>: the call \<^verbatim>\<open>_pythonDecimalType(stringRepr)\<close>.
\<close>

record host =
  inet_ntop :: "address_family \<Rightarrow> byte list \<Rightarrow> string option"
  utf8_decode :: "byte list \<Rightarrow> error + Value"
  pythonUuidType :: "byte list \<Rightarrow> error + Value"
  pythonDatetimeUtcFromTimestamp :: "int \<Rightarrow> error + Value"
  pythonDecimalType :: "string \<Rightarrow> error + Value"

subsection \<open>The address conversion of the C library\<close>

text \<open>
  A model of \<^verbatim>\<open>inet_ntop\<close> as the C libraries implement it, for the two address
  families the decoder uses. It is not code of the repository: the decoder takes the
  conversion as a parameter, and this model stands for it where a statement is applied
  to concrete addresses. With these two families and a destination of
  \<^verbatim>\<open>INET6_ADDRSTRLEN\<close> characters the conversion does not fail.
\<close>

text \<open>The C format \<^verbatim>\<open>"%x"\<close>: lower-case hexadecimal digits, no leading zeros.\<close>

fun hex_digits :: "nat \<Rightarrow> string" where
  "hex_digits n =
     (if n < 16 then [''0123456789abcdef'' ! n]
      else hex_digits (n div 16) @ [''0123456789abcdef'' ! (n mod 16)])"

declare hex_digits.simps [simp del]

text \<open>The address family \<^verbatim>\<open>AF_INET\<close>: \<^verbatim>\<open>"%u.%u.%u.%u"\<close> of the four octets.\<close>

fun inet_ntop4 :: "byte list \<Rightarrow> string" where
  "inet_ntop4 (a # b # c # d # rest) =
     dec_digits (unat a) @ ''.'' @ dec_digits (unat b) @ ''.'' @
     dec_digits (unat c) @ ''.'' @ dec_digits (unat d)"

text \<open>
  The address family \<^verbatim>\<open>AF_INET6\<close>: the eight 16-bit groups in hexadecimal, the longest
  run of at least two zero groups (the first of them, when several are as long)
  replaced by \<^verbatim>\<open>::\<close>, and the last 32 bits in dotted-decimal form for an address that
  encapsulates an IPv4 address.
\<close>

fun words16 :: "byte list \<Rightarrow> nat list" where
  "words16 (hi # lo # rest) = (unat hi * 256 + unat lo) # words16 rest"
| "words16 rest = []"

type_synonym zero_run = "nat \<times> nat"

definition keep_best :: "zero_run option \<Rightarrow> zero_run option \<Rightarrow> zero_run option" where
  "keep_best cur best =
     (case cur of
        None \<Rightarrow> best
      | Some (cb, cl) \<Rightarrow>
          (case best of
             None \<Rightarrow> cur
           | Some (bb, bl) \<Rightarrow> if bl < cl then cur else best))"

fun scan_zero_runs ::
  "nat list \<Rightarrow> nat \<Rightarrow> zero_run option \<Rightarrow> zero_run option \<Rightarrow> zero_run option" where
  "scan_zero_runs [] i cur best = keep_best cur best"
| "scan_zero_runs (w # ws) i cur best =
     (if w = 0
      then scan_zero_runs ws (Suc i)
             (case cur of None \<Rightarrow> Some (i, 1) | Some (b, l) \<Rightarrow> Some (b, Suc l)) best
      else scan_zero_runs ws (Suc i) None (keep_best cur best))"

definition best_zero_run :: "nat list \<Rightarrow> zero_run option" where
  "best_zero_run ws =
     (case scan_zero_runs ws 0 None None of
        None \<Rightarrow> None
      | Some (b, l) \<Rightarrow> if l < 2 then None else Some (b, l))"

definition in_run :: "zero_run option \<Rightarrow> nat \<Rightarrow> bool" where
  "in_run best i = (case best of None \<Rightarrow> False | Some (b, l) \<Rightarrow> b \<le> i \<and> i < b + l)"

definition encapsulated_v4 :: "zero_run option \<Rightarrow> nat list \<Rightarrow> bool" where
  "encapsulated_v4 best ws =
     (case best of
        None \<Rightarrow> False
      | Some (b, l) \<Rightarrow> b = 0 \<and> (l = 6 \<or> (l = 5 \<and> ws ! 5 = 65535)))"

fun ntop6_words :: "zero_run option \<Rightarrow> byte list \<Rightarrow> nat list \<Rightarrow> nat \<Rightarrow> nat list \<Rightarrow> string" where
  "ntop6_words best src all i [] = []"
| "ntop6_words best src all i (w # ws) =
     (if in_run best i
      then (if map_option fst best = Some i then '':'' else []) @
           ntop6_words best src all (Suc i) ws
      else (if i \<noteq> 0 then '':'' else []) @
           (if i = 6 \<and> encapsulated_v4 best all then inet_ntop4 (drop 12 src)
            else hex_digits w @ ntop6_words best src all (Suc i) ws))"

definition inet_ntop6 :: "byte list \<Rightarrow> string" where
  "inet_ntop6 src =
     (let ws = words16 (take 16 src); best = best_zero_run ws
      in ntop6_words best src ws 0 ws @
         (case best of None \<Rightarrow> [] | Some (b, l) \<Rightarrow> if b + l = 8 then '':'' else []))"

definition posix_inet_ntop :: "address_family \<Rightarrow> byte list \<Rightarrow> string option" where
  "posix_inet_ntop af src =
     (case af of AF_INET \<Rightarrow> Some (inet_ntop4 src) | AF_INET6 \<Rightarrow> Some (inet_ntop6 src))"

subsection \<open>Scalar, text and temporal types\<close>

text \<open>
  The macro \<^verbatim>\<open>IMPLEMENT_SIMPLE_CQL_TYPE_DESERIALIZE(_cls, _desc, _size, _unmarshal)\<close>.
\<close>

definition SIMPLE_CQL_TYPE_DESERIALIZE :: "nat \<Rightarrow> (byte list \<Rightarrow> Value) \<Rightarrow> decoder" where
  "SIMPLE_CQL_TYPE_DESERIALIZE sz unmarshal buffer protocolVersion =
     (case Consume sz buffer of
        None \<Rightarrow> (Inl EOFError, buffer)
      | Some (data, buffer') \<Rightarrow> (Inr (unmarshal data), buffer'))"

text \<open>
  Modelled from the spec: the \<^verbatim>\<open>Unmarshal\<close> functions of \<^verbatim>\<open>marshal.hpp\<close>, which is not
  among the sources: big-endian signed 32-bit and 64-bit integers, IEEE-754 single and
  double, a boolean that is true when the octet is nonzero, and the arbitrary-precision
  integer.
\<close>

definition UnmarshalInt32 :: "byte list \<Rightarrow> Value" where
  "UnmarshalInt32 data = Int32 (sint (UnpackInt32 data))"

definition UnmarshalInt64 :: "byte list \<Rightarrow> Value" where
  "UnmarshalInt64 data = Int64 (sint (UnpackInt64 data))"

definition UnmarshalFloat32 :: "byte list \<Rightarrow> Value" where
  "UnmarshalFloat32 data = Float32 (be_word data)"

definition UnmarshalFloat64 :: "byte list \<Rightarrow> Value" where
  "UnmarshalFloat64 data = Float64 (be_word data)"

definition UnmarshalBoolean :: "byte list \<Rightarrow> Value" where
  "UnmarshalBoolean data = Boolean (be_uint data \<noteq> 0)"

definition UnmarshalVarint :: "byte list \<Rightarrow> Value" where
  "UnmarshalVarint data = Integer (varint_value data)"

definition CqlInt32Type_Deserialize :: decoder where
  "CqlInt32Type_Deserialize = SIMPLE_CQL_TYPE_DESERIALIZE 4 UnmarshalInt32"

definition CqlLongType_Deserialize :: decoder where
  "CqlLongType_Deserialize = SIMPLE_CQL_TYPE_DESERIALIZE 8 UnmarshalInt64"

definition CqlFloatType_Deserialize :: decoder where
  "CqlFloatType_Deserialize = SIMPLE_CQL_TYPE_DESERIALIZE 4 UnmarshalFloat32"

definition CqlDoubleType_Deserialize :: decoder where
  "CqlDoubleType_Deserialize = SIMPLE_CQL_TYPE_DESERIALIZE 8 UnmarshalFloat64"

definition CqlBooleanType_Deserialize :: decoder where
  "CqlBooleanType_Deserialize = SIMPLE_CQL_TYPE_DESERIALIZE 1 UnmarshalBoolean"

text \<open>
  The types that take all of the residual window call \<^verbatim>\<open>Consume(Residual())\<close> and do
  not test its result: it cannot fail (lemma \<open>Consume_Residual\<close> below), so the model
  takes the value out of the option with \<open>the\<close>.
\<close>

definition CqlBytesType_Deserialize :: decoder where
  "CqlBytesType_Deserialize buffer protocolVersion =
     (let size = Residual buffer in
      if size = 0 then (Inr (Bytes []), buffer)
      else (let (data, buffer') = the (Consume size buffer) in (Inr (Bytes data), buffer')))"

definition CqlUtf8Type_Deserialize :: "(byte list \<Rightarrow> error + Value) \<Rightarrow> decoder" where
  "CqlUtf8Type_Deserialize decode buffer protocolVersion =
     (let size = Residual buffer;
          (data, buffer') = (if size \<noteq> 0 then the (Consume size buffer) else ([], buffer))
      in (decode data, buffer'))"

definition CqlUuidType_Deserialize :: "(byte list \<Rightarrow> error + Value) \<Rightarrow> decoder" where
  "CqlUuidType_Deserialize uuidType buffer protocolVersion =
     (let size = Residual buffer;
          (data, buffer') = (if size \<noteq> 0 then the (Consume size buffer) else ([], buffer))
      in (uuidType data, buffer'))"

definition CqlInetAddressType_Deserialize ::
  "(address_family \<Rightarrow> byte list \<Rightarrow> string option) \<Rightarrow> decoder" where
  "CqlInetAddressType_Deserialize ntop buffer protocolVersion =
     (let size = Residual buffer in
      if size \<noteq> 4 \<and> size \<noteq> 16 then (Inl ValueError, buffer)
      else
        (let (data, buffer') = the (Consume size buffer) in
         case ntop (if size = 4 then AF_INET else AF_INET6) data of
           None \<Rightarrow> (Inl OSError, buffer')
         | Some presentation \<Rightarrow> (Inr (InetText presentation), buffer')))"

definition CqlDateType_Deserialize :: "(int \<Rightarrow> error + Value) \<Rightarrow> decoder" where
  "CqlDateType_Deserialize utcFromTimestamp buffer protocolVersion =
     (case Consume 8 buffer of
        None \<Rightarrow> (Inl EOFError, buffer)
      | Some (data, buffer') \<Rightarrow>
          (let timestampMs = sint (UnpackInt64 data) in (utcFromTimestamp timestampMs, buffer')))"

definition CqlIntegerType_Deserialize :: decoder where
  "CqlIntegerType_Deserialize buffer protocolVersion =
     (let size = Residual buffer;
          (data, buffer') = the (Consume size buffer)
      in (Inr (UnmarshalVarint data), buffer'))"

text \<open>
  \<^verbatim>\<open>CqlDecimalType::Deserialize\<close>. The scale is negated as an \<^verbatim>\<open>int32_t\<close>, before it
  is widened for \<^verbatim>\<open>PyInt_FromLong\<close>: the negation is that of the 32-bit word. The text
  is \<^verbatim>\<open>"%de%d" % (unscaled, scale)\<close>.
\<close>

definition CqlDecimalType_Deserialize :: "(string \<Rightarrow> error + Value) \<Rightarrow> decoder" where
  "CqlDecimalType_Deserialize decimalType buffer protocolVersion =
     (case Consume 4 buffer of
        None \<Rightarrow> (Inl EOFError, buffer)
      | Some (scaleData, buffer1) \<Rightarrow>
          (let negativeScale = UnpackInt32 scaleData;
               scale = sint (- negativeScale);
               size = Residual buffer1;
               (data, buffer2) = the (Consume size buffer1);
               unscaled = varint_value data;
               stringRepr = py_format_d unscaled @ ''e'' @ py_format_d scale
           in (decimalType stringRepr, buffer2)))"

subsection \<open>Tuples\<close>

text \<open>
  The loop of \<^verbatim>\<open>CqlTupleType::Deserialize\<close> over \<^verbatim>\<open>_subtypes\<close>, as a recursion over the
  subtypes that are left, \<open>i\<close> being the index of the first of them. A subtype is given
  by its \<^verbatim>\<open>Deserialize\<close> method. The item is decoded from a buffer of its own, whose
  final state is dropped. The loop returns the tuple and the counter \<^verbatim>\<open>missing\<close>.
\<close>

fun tuple_loop ::
  "decoder list \<Rightarrow> nat \<Rightarrow> int \<Rightarrow> Buffer \<Rightarrow> Value option list \<Rightarrow> nat \<Rightarrow>
     (error + Value option list \<times> nat) \<times> Buffer" where
  "tuple_loop [] i protocolVersion buffer tuple missing = (Inr (tuple, missing), buffer)"
| "tuple_loop (subtype # subtypes) i protocolVersion buffer tuple missing =
     (case Consume 4 buffer of
        None \<Rightarrow> (Inr (tuple, missing), buffer)
      | Some (sizeData, buffer1) \<Rightarrow>
          (let size = UnpackInt32 sizeData in
           if sint size < 0 then (Inl ValueError, buffer1)
           else
             (case Consume (nat (sint size)) buffer1 of
                None \<Rightarrow> (Inl EOFError, buffer1)
              | Some (itemData, buffer2) \<Rightarrow>
                  (case fst (subtype itemData protocolVersion) of
                     Inl e \<Rightarrow> (Inl e, buffer2)
                   | Inr des \<Rightarrow>
                       tuple_loop subtypes (Suc i) protocolVersion buffer2
                         (PyTuple_SetItem tuple i des) (missing - 1)))))"

text \<open>The loop \<^verbatim>\<open>while (missing--) PyTuple_SetItem(tuple, missing, Py_None);\<close>\<close>

fun backfill :: "nat \<Rightarrow> Value option list \<Rightarrow> Value option list" where
  "backfill 0 tuple = tuple"
| "backfill (Suc missing) tuple = backfill missing (PyTuple_SetItem tuple missing Null)"

definition CqlTupleType_Deserialize :: "decoder list \<Rightarrow> decoder" where
  "CqlTupleType_Deserialize subtypes buffer protocolVersion =
     (let protocolVersion' = (if protocolVersion < 3 then 3 else protocolVersion);
          tuple = PyTuple_New (length subtypes);
          missing = length subtypes
      in case tuple_loop subtypes 0 protocolVersion' buffer tuple missing of
           (Inl e, buffer') \<Rightarrow> (Inl e, buffer')
         | (Inr (tuple', missing'), buffer') \<Rightarrow> (Inr (Tuple (backfill missing' tuple')), buffer'))"

subsection \<open>Lists\<close>

text \<open>
  The element size of a list: \<^verbatim>\<open>UnpackInt32\<close> from protocol version 3 on,
  \<^verbatim>\<open>UnpackInt16\<close> before, as an \<^verbatim>\<open>int32_t\<close>.
\<close>

definition list_item_size :: "int \<Rightarrow> byte list \<Rightarrow> int" where
  "list_item_size protocolVersion sizeData =
     (if 3 \<le> protocolVersion then sint (UnpackInt32 sizeData) else sint (UnpackInt16 sizeData))"

text \<open>
  The item count of a list: the same two readings, converted to \<^verbatim>\<open>std::size_t\<close>: a
  signed number is sign-extended to 64 bits.
\<close>

definition list_item_count :: "int \<Rightarrow> byte list \<Rightarrow> size_t" where
  "list_item_count protocolVersion itemCountData =
     (if 3 \<le> protocolVersion then scast (UnpackInt32 itemCountData)
      else scast (UnpackInt16 itemCountData))"

text \<open>The loop of \<^verbatim>\<open>CqlListType::Deserialize\<close>, from index \<open>i\<close> on.\<close>

function list_loop ::
  "decoder \<Rightarrow> int \<Rightarrow> nat \<Rightarrow> nat \<Rightarrow> nat \<Rightarrow> Buffer \<Rightarrow> Value option list \<Rightarrow>
     (error + Value option list) \<times> Buffer" where
  "list_loop itemType protocolVersion sizeSize itemCount i buffer list =
     (if i < itemCount then
        (case Consume sizeSize buffer of
           None \<Rightarrow> (Inr list, buffer)
         | Some (sizeData, buffer1) \<Rightarrow>
             (let size = list_item_size protocolVersion sizeData in
              if size < 0 then (Inl ValueError, buffer1)
              else
                (case Consume (nat size) buffer1 of
                   None \<Rightarrow> (Inl EOFError, buffer1)
                 | Some (itemData, buffer2) \<Rightarrow>
                     (case fst (itemType itemData protocolVersion) of
                        Inl e \<Rightarrow> (Inl e, buffer2)
                      | Inr des \<Rightarrow>
                          list_loop itemType protocolVersion sizeSize itemCount (Suc i) buffer2
                            (PyList_SetItem list i des)))))
      else (Inr list, buffer))"
  by pat_completeness auto
termination
  by (relation "measure (\<lambda>(itemType, protocolVersion, sizeSize, itemCount, i, buffer, list).
        itemCount - i)") auto

declare list_loop.simps [simp del]

text \<open>
  \<^verbatim>\<open>CqlListType::Deserialize\<close>, in two parts: reading the item count, and what is
  done with it (the allocation of the list and the loop).
\<close>

definition list_with_count :: "decoder \<Rightarrow> int \<Rightarrow> nat \<Rightarrow> size_t \<Rightarrow> Buffer \<Rightarrow> result" where
  "list_with_count itemType protocolVersion sizeSize itemCount buffer =
     (case PyList_New itemCount of
        Inl e \<Rightarrow> (Inl e, buffer)
      | Inr list \<Rightarrow>
          (case list_loop itemType protocolVersion sizeSize (unat itemCount) 0 buffer list of
             (Inl e, buffer') \<Rightarrow> (Inl e, buffer')
           | (Inr list', buffer') \<Rightarrow> (Inr (List list'), buffer')))"

definition CqlListType_Deserialize :: "decoder \<Rightarrow> decoder" where
  "CqlListType_Deserialize itemType buffer protocolVersion =
     (let sizeSize = (if 3 \<le> protocolVersion then 4 else 2) in
      case Consume sizeSize buffer of
        None \<Rightarrow> (Inl EOFError, buffer)
      | Some (itemCountData, buffer1) \<Rightarrow>
          list_with_count itemType protocolVersion sizeSize
            (list_item_count protocolVersion itemCountData) buffer1)"

subsection \<open>The type hierarchy\<close>

text \<open>
  Modelled from the spec: the classes \<^verbatim>\<open>CqlType\<close> and \<^verbatim>\<open>CqlTypeReference\<close> are declared
  in \<^verbatim>\<open>cql_types.hpp\<close>, which is not among the sources. A reference is borrowed (it
  points to a simple type that the factory keeps) or owned (it holds a composite
  instance of its own, constructed at the address it carries); \<^verbatim>\<open>Get()\<close> is the type
  referred to.
\<close>

datatype CqlType =
    Int32Type
  | LongType
  | FloatType
  | DoubleType
  | BooleanType
  | BytesType
  | Utf8Type
  | UuidType
  | InetAddressType
  | DateType
  | IntegerType
  | DecimalType
  | TupleType "CqlTypeReference list"
  | ListType CqlTypeReference
and CqlTypeReference =
    Borrowed CqlType
  | Owned nat CqlType

fun Get :: "CqlTypeReference \<Rightarrow> CqlType" where
  "Get (Borrowed t) = t"
| "Get (Owned a t) = t"

text \<open>
  The virtual call \<^verbatim>\<open>Deserialize\<close>, and \<^verbatim>\<open>Get()->Deserialize\<close> on a reference.
\<close>

fun Deserialize :: "host \<Rightarrow> CqlType \<Rightarrow> decoder"
  and Get_Deserialize :: "host \<Rightarrow> CqlTypeReference \<Rightarrow> decoder" where
  "Deserialize h Int32Type = CqlInt32Type_Deserialize"
| "Deserialize h LongType = CqlLongType_Deserialize"
| "Deserialize h FloatType = CqlFloatType_Deserialize"
| "Deserialize h DoubleType = CqlDoubleType_Deserialize"
| "Deserialize h BooleanType = CqlBooleanType_Deserialize"
| "Deserialize h BytesType = CqlBytesType_Deserialize"
| "Deserialize h Utf8Type = CqlUtf8Type_Deserialize (utf8_decode h)"
| "Deserialize h UuidType = CqlUuidType_Deserialize (pythonUuidType h)"
| "Deserialize h InetAddressType = CqlInetAddressType_Deserialize (inet_ntop h)"
| "Deserialize h DateType = CqlDateType_Deserialize (pythonDatetimeUtcFromTimestamp h)"
| "Deserialize h IntegerType = CqlIntegerType_Deserialize"
| "Deserialize h DecimalType = CqlDecimalType_Deserialize (pythonDecimalType h)"
| "Deserialize h (TupleType subtypes) =
     CqlTupleType_Deserialize (map (Get_Deserialize h) subtypes)"
| "Deserialize h (ListType itemType) = CqlListType_Deserialize (Get_Deserialize h itemType)"
| "Get_Deserialize h (Borrowed t) = Deserialize h t"
| "Get_Deserialize h (Owned a t) = Deserialize h t"

subsection \<open>Type descriptors\<close>

text \<open>
  The Python object \<^verbatim>\<open>pyCqlType\<close> as the resolution of types sees it: a name, the kind
  of composite it describes (if any), and its attribute \<^verbatim>\<open>subtypes\<close>, which is missing,
  a Python tuple, a Python list, or an object of another type. The items of a tuple or
  list are descriptors again. \<^verbatim>\<open>PyTuple_GetItem\<close> and \<^verbatim>\<open>PyList_GetItem\<close> are called
  with an index below the size of the sequence and return its item: the early returns
  of \<^verbatim>\<open>ResolveSubtypes\<close> on a \<^verbatim>\<open>NULL\<close> item are not taken.
\<close>

datatype descriptor_kind = TupleKind | ListKind | OtherKind

datatype PyCqlType =
  PyCqlType (typename: string) (kind: descriptor_kind) (subtypes_attr: PySubtypes)
and PySubtypes =
    NoSubtypes
  | SubtypesTuple "PyCqlType list"
  | SubtypesList "PyCqlType list"
  | SubtypesOther

subsection \<open>Allocations\<close>

text \<open>
  The composite type instances that have been constructed with \<^verbatim>\<open>new\<close> and not yet
  deleted, by their addresses; \<^verbatim>\<open>new\<close> takes the next fresh address.
\<close>

record heap =
  allocated :: "nat set"
  next_address :: nat

definition new :: "heap \<Rightarrow> nat \<times> heap" where
  "new h = (next_address h,
     h\<lparr>allocated := insert (next_address h) (allocated h), next_address := Suc (next_address h)\<rparr>)"

definition free :: "nat \<Rightarrow> heap \<Rightarrow> heap" where
  "free a h = h\<lparr>allocated := allocated h - {a}\<rparr>"

text \<open>
  Modelled from the spec: the destructor of \<^verbatim>\<open>CqlTypeReference\<close> (declared in
  \<^verbatim>\<open>cql_types.hpp\<close>, which is not among the sources): destroying a borrowed reference
  does not free the type it refers to; destroying an owned reference frees the instance
  it holds, which destroys the instance first. The destructors of the instances are in
  the source: \<^verbatim>\<open>~CqlTupleType\<close> deletes every subtype reference, \<^verbatim>\<open>~CqlListType\<close>
  deletes the reference to the item type.
\<close>

fun delete_reference :: "CqlTypeReference \<Rightarrow> heap \<Rightarrow> heap"
  and destroy :: "CqlType \<Rightarrow> heap \<Rightarrow> heap" where
  "delete_reference (Borrowed t) h = h"
| "delete_reference (Owned a t) h = free a (destroy t h)"
| "destroy (TupleType subtypes) h = fold delete_reference subtypes h"
| "destroy (ListType itemType) h = delete_reference itemType h"
| "destroy t h = h"

subsection \<open>Resolution of subtypes\<close>

text \<open>
  The factory argument of \<^verbatim>\<open>ResolveSubtypes\<close> and of the \<^verbatim>\<open>FromPython\<close> constructors
  is used for its method \<^verbatim>\<open>ReferenceFromPython\<close> only, which is what the model passes:
  a descriptor gives a reference or fails with an exception, and may allocate.
\<close>

type_synonym factory = "PyCqlType \<Rightarrow> heap \<Rightarrow> (error + CqlTypeReference) \<times> heap"

text \<open>
  The loop of \<^verbatim>\<open>ResolveSubtypes\<close> over the items \<^verbatim>\<open>pySubtypes\<close>. On the first failure
  every reference in the vector \<^verbatim>\<open>subtypes\<close> is deleted and the vector is cleared.
\<close>

fun resolve_loop ::
  "factory \<Rightarrow> PyCqlType list \<Rightarrow> CqlTypeReference list \<Rightarrow> heap \<Rightarrow>
     error option \<times> CqlTypeReference list \<times> heap" where
  "resolve_loop factory [] subtypes h = (None, subtypes, h)"
| "resolve_loop factory (pySubtype # pySubtypes) subtypes h =
     (case factory pySubtype h of
        (Inl e, h') \<Rightarrow> (Some e, [], fold delete_reference subtypes h')
      | (Inr subtype, h') \<Rightarrow> resolve_loop factory pySubtypes (subtypes @ [subtype]) h')"

text \<open>
  \<^verbatim>\<open>ResolveSubtypes\<close>: the result \<^verbatim>\<open>true\<close> is \<open>None\<close>, the result \<^verbatim>\<open>false\<close> is the
  exception that is set; the vector \<^verbatim>\<open>subtypes\<close> is passed by reference and returned.
\<close>

definition ResolveSubtypes ::
  "factory \<Rightarrow> PyCqlType \<Rightarrow> CqlTypeReference list \<Rightarrow> heap \<Rightarrow>
     error option \<times> CqlTypeReference list \<times> heap" where
  "ResolveSubtypes factory pyCqlType subtypes h =
     (case subtypes_attr pyCqlType of
        NoSubtypes \<Rightarrow> (Some AttributeError, subtypes, h)
      | SubtypesTuple pySubtypes \<Rightarrow> resolve_loop factory pySubtypes subtypes h
      | SubtypesList pySubtypes \<Rightarrow> resolve_loop factory pySubtypes subtypes h
      | SubtypesOther \<Rightarrow> (Some TypeError, subtypes, h))"

text \<open>
  The two constructors return the address and the value of the new instance, or fail.
\<close>

definition CqlTupleType_FromPython ::
  "factory \<Rightarrow> PyCqlType \<Rightarrow> heap \<Rightarrow> (error + nat \<times> CqlType) \<times> heap" where
  "CqlTupleType_FromPython factory pyCqlType h =
     (case ResolveSubtypes factory pyCqlType [] h of
        (Some e, subtypes, h') \<Rightarrow> (Inl e, h')
      | (None, subtypes, h') \<Rightarrow>
          (let (a, h'') = new h' in (Inr (a, TupleType subtypes), h'')))"

definition CqlListType_FromPython ::
  "factory \<Rightarrow> PyCqlType \<Rightarrow> heap \<Rightarrow> (error + nat \<times> CqlType) \<times> heap" where
  "CqlListType_FromPython factory pyCqlType h =
     (case ResolveSubtypes factory pyCqlType [] h of
        (Some e, subtypes, h') \<Rightarrow> (Inl e, h')
      | (None, subtypes, h') \<Rightarrow>
          (if length subtypes \<noteq> 1 then (Inl TypeError, h')
           else (let (a, h'') = new h' in (Inr (a, ListType (subtypes ! 0)), h''))))"

subsection \<open>The type factory\<close>

text \<open>The items of the attribute \<^verbatim>\<open>subtypes\<close> of a descriptor, if it is a sequence.\<close>

fun subtype_descriptors :: "PyCqlType \<Rightarrow> PyCqlType list" where
  "subtype_descriptors (PyCqlType name k (SubtypesTuple ps)) = ps"
| "subtype_descriptors (PyCqlType name k (SubtypesList ps)) = ps"
| "subtype_descriptors (PyCqlType name k other) = []"

text \<open>
  The resolution of a descriptor applies the factory to the items of its attribute
  \<^verbatim>\<open>subtypes\<close> only. This is what makes the recursion of the factory through
  \<^verbatim>\<open>FromPython\<close> and \<^verbatim>\<open>ResolveSubtypes\<close> terminate.
\<close>

lemma resolve_loop_cong [fundef_cong]:
  assumes "ps = ps'" "subtypes = subtypes'" "h = h'"
    and "\<And>p hh. p \<in> set ps' \<Longrightarrow> factory p hh = factory' p hh"
  shows "resolve_loop factory ps subtypes h = resolve_loop factory' ps' subtypes' h'"
  unfolding assms(1-3) using assms(4)
  by (induction ps' arbitrary: subtypes' h') (auto split: prod.splits sum.splits)

lemma ResolveSubtypes_cong [fundef_cong]:
  assumes "d = d'" "subtypes = subtypes'" "h = h'"
    and "\<And>p hh. p \<in> set (subtype_descriptors d') \<Longrightarrow> factory p hh = factory' p hh"
  shows "ResolveSubtypes factory d subtypes h = ResolveSubtypes factory' d' subtypes' h'"
proof (cases d')
  case (PyCqlType name k subs)
  show ?thesis
    unfolding ResolveSubtypes_def assms(1-3)
    using assms(4) PyCqlType
    by (cases subs) (auto intro!: resolve_loop_cong)
qed

lemma CqlTupleType_FromPython_cong [fundef_cong]:
  assumes "d = d'" "h = h'"
    and "\<And>p hh. p \<in> set (subtype_descriptors d') \<Longrightarrow> factory p hh = factory' p hh"
  shows "CqlTupleType_FromPython factory d h = CqlTupleType_FromPython factory' d' h'"
  unfolding CqlTupleType_FromPython_def
  using ResolveSubtypes_cong [OF assms(1) refl assms(2), of factory factory' "[]"] assms(3)
  by simp

lemma CqlListType_FromPython_cong [fundef_cong]:
  assumes "d = d'" "h = h'"
    and "\<And>p hh. p \<in> set (subtype_descriptors d') \<Longrightarrow> factory p hh = factory' p hh"
  shows "CqlListType_FromPython factory d h = CqlListType_FromPython factory' d' h'"
  unfolding CqlListType_FromPython_def
  using ResolveSubtypes_cong [OF assms(1) refl assms(2), of factory factory' "[]"] assms(3)
  by simp

lemma size_subtype_descriptors:
  "p \<in> set (subtype_descriptors d) \<Longrightarrow> size p < size d"
proof (cases d)
  case (PyCqlType name k subs)
  assume "p \<in> set (subtype_descriptors d)"
  with PyCqlType show ?thesis
    by (cases subs) (auto dest: size_list_estimation' [where f = size] simp: less_Suc_eq_le)
qed

text \<open>
  Modelled from the spec: \<^verbatim>\<open>CqlTypeFactory::ReferenceFromPython\<close> is defined in
  \<^verbatim>\<open>cql_type_factory.cpp\<close>, which is not among the sources (the header is). If the name
  of the descriptor is in the cache of simple types, the result is a borrowed reference
  to the cached type, with no allocation. Otherwise the kind of composite selects the
  constructor, which resolves the subtypes first, and the new instance is wrapped as an
  owned reference. An unknown kind fails.
\<close>

record CqlTypeFactory =
  simpleTypeNameMap :: "string \<rightharpoonup> CqlType"

function ReferenceFromPython :: "CqlTypeFactory \<Rightarrow> factory" where
  "ReferenceFromPython f pyCqlType h =
     (case simpleTypeNameMap f (typename pyCqlType) of
        Some t \<Rightarrow> (Inr (Borrowed t), h)
      | None \<Rightarrow>
          (case kind pyCqlType of
             TupleKind \<Rightarrow>
               (case CqlTupleType_FromPython (ReferenceFromPython f) pyCqlType h of
                  (Inl e, h') \<Rightarrow> (Inl e, h')
                | (Inr (a, t), h') \<Rightarrow> (Inr (Owned a t), h'))
           | ListKind \<Rightarrow>
               (case CqlListType_FromPython (ReferenceFromPython f) pyCqlType h of
                  (Inl e, h') \<Rightarrow> (Inl e, h')
                | (Inr (a, t), h') \<Rightarrow> (Inr (Owned a t), h'))
           | OtherKind \<Rightarrow> (Inl TypeError, h)))"
  by pat_completeness auto
termination
  by (relation "measure (\<lambda>(f, pyCqlType, h). size pyCqlType)")
    (auto dest: size_subtype_descriptors)

declare ReferenceFromPython.simps [simp del]

section \<open>Properties of the decoder\<close>

subsection \<open>Encoded elements\<close>

text \<open>
  The statements below describe a window by the elements encoded in it. A frame is one
  encoded element of a tuple or of a list: the octets of its size field, the octets of
  the element itself, and the value the element decodes to. An element of a tuple
  comes with the \<^verbatim>\<open>Deserialize\<close> method of its subtype. \<open>wire\<close> is the concatenation of
  the frames as they stand in the window.
\<close>

record frame =
  size_field :: "byte list"
  item_bytes :: "byte list"
  decoded :: Value

record tuple_element = frame +
  subtype_of :: decoder

definition wire :: "('a frame_scheme) list \<Rightarrow> byte list" where
  "wire es = concat (map (\<lambda>e. size_field e @ item_bytes e) es)"

text \<open>
  An element of a tuple is well formed at a protocol version when its size field has
  four octets and holds the length of the element, and the subtype decodes the element
  at that version.
\<close>

definition tuple_element_ok :: "int \<Rightarrow> tuple_element \<Rightarrow> bool" where
  "tuple_element_ok protocolVersion e \<longleftrightarrow>
     length (size_field e) = 4 \<and>
     sint (UnpackInt32 (size_field e)) = int (length (item_bytes e)) \<and>
     fst (subtype_of e (item_bytes e) protocolVersion) = Inr (decoded e)"

text \<open>
  The width of the count prefix and of the size fields of a list, in the words of the
  specification: four octets from protocol version 3 on, two octets before. A count
  prefix is well formed for \<open>n\<close> when it has that width and holds \<open>n\<close>; an element of a
  list is well formed when its size field has that width and holds the length of the
  element, and the item type decodes the element at the protocol version.
\<close>

definition size_width :: "int \<Rightarrow> nat" where
  "size_width protocolVersion = (if 3 \<le> protocolVersion then 4 else 2)"

definition list_count_ok :: "int \<Rightarrow> byte list \<Rightarrow> nat \<Rightarrow> bool" where
  "list_count_ok protocolVersion countData n \<longleftrightarrow>
     (if 3 \<le> protocolVersion
      then length countData = 4 \<and> sint (UnpackInt32 countData) = int n
      else length countData = 2 \<and> sint (UnpackInt16 countData) = int n)"

definition list_element_ok :: "decoder \<Rightarrow> int \<Rightarrow> frame \<Rightarrow> bool" where
  "list_element_ok itemType protocolVersion e \<longleftrightarrow>
     (if 3 \<le> protocolVersion
      then length (size_field e) = 4 \<and>
           sint (UnpackInt32 (size_field e)) = int (length (item_bytes e))
      else length (size_field e) = 2 \<and>
           sint (UnpackInt16 (size_field e)) = int (length (item_bytes e))) \<and>
     fst (itemType (item_bytes e) protocolVersion) = Inr (decoded e)"

text \<open>A size field of a list, of the width of the protocol version, that holds a
  negative number.\<close>

definition list_size_negative :: "int \<Rightarrow> byte list \<Rightarrow> bool" where
  "list_size_negative protocolVersion sizeData \<longleftrightarrow>
     (if 3 \<le> protocolVersion
      then length sizeData = 4 \<and> sint (UnpackInt32 sizeData) < 0
      else length sizeData = 2 \<and> sint (UnpackInt16 sizeData) < 0)"

text \<open>
  The factory applied to the items of a sequence in order, up to its first failure, with
  no clean-up: the references resolved before the failure, the failure (if any), and
  the allocations as the last call of the factory has left them.
\<close>

fun resolve_prefix ::
  "factory \<Rightarrow> PyCqlType list \<Rightarrow> heap \<Rightarrow> CqlTypeReference list \<times> error option \<times> heap" where
  "resolve_prefix factory [] h = ([], None, h)"
| "resolve_prefix factory (p # ps) h =
     (case factory p h of
        (Inl e, h') \<Rightarrow> ([], Some e, h')
      | (Inr r, h') \<Rightarrow>
          (case resolve_prefix factory ps h' of (rs, failure, h'') \<Rightarrow> (r # rs, failure, h'')))"

text \<open>
  The addresses of the instances that a reference owns, directly or through the
  subtypes of the instance it holds: what deleting the reference releases.
\<close>

fun owned_by :: "CqlTypeReference \<Rightarrow> nat set"
  and owned_in :: "CqlType \<Rightarrow> nat set" where
  "owned_by (Borrowed t) = {}"
| "owned_by (Owned a t) = insert a (owned_in t)"
| "owned_in (TupleType subtypes) = \<Union> (set (map owned_by subtypes))"
| "owned_in (ListType itemType) = owned_by itemType"
| "owned_in t = {}"

definition owned_by_all :: "CqlTypeReference list \<Rightarrow> nat set" where
  "owned_by_all rs = \<Union> (set (map owned_by rs))"

text \<open>Storing values into consecutive slots, from index \<open>i\<close> on.\<close>

fun store_from :: "Value option list \<Rightarrow> nat \<Rightarrow> Value list \<Rightarrow> Value option list" where
  "store_from slots i [] = slots"
| "store_from slots i (v # vs) = store_from (slots[i := Some v]) (Suc i) vs"

subsection \<open>Buffer\<close>

lemma Consume_Residual: "Consume (Residual buffer) buffer = Some (buffer, [])"
  by (simp add: Consume_def Residual_def)

lemma Consume_append: "length xs = n \<Longrightarrow> Consume n (xs @ ys) = Some (xs, ys)"
  by (simp add: Consume_def)

lemma Consume_short: "length buffer < n \<Longrightarrow> Consume n buffer = None"
  by (simp add: Consume_def)

lemma wire_Nil: "wire [] = []"
  by (simp add: wire_def)

lemma wire_Cons: "wire (e # es) = size_field e @ item_bytes e @ wire es"
  by (simp add: wire_def)

lemma store_from_append:
  "store_from (pre @ replicate (length vs + m) None) (length pre) vs
     = pre @ map Some vs @ replicate m None"
proof (induction vs arbitrary: pre)
  case Nil
  show ?case by simp
next
  case (Cons v vs)
  have "(pre @ replicate (length (v # vs) + m) None)[length pre := Some v]
      = (pre @ [Some v]) @ replicate (length vs + m) None"
    by (simp add: list_update_append)
  then show ?case
    using Cons.IH [of "pre @ [Some v]"] by simp
qed

lemma store_from_replicate:
  "store_from (replicate (length vs + m) None) 0 vs = map Some vs @ replicate m None"
  using store_from_append [of "[]" vs m] by simp

subsection \<open>The loop over the subtypes of a tuple\<close>

text \<open>
  Over a run of well-formed elements the loop stores the decoded values into
  consecutive slots, decrements \<^verbatim>\<open>missing\<close> once for each, and goes on with the rest
  of the subtypes on the rest of the window.
\<close>

lemma tuple_loop_elements:
  "\<forall>e\<in>set es. tuple_element_ok pv e \<Longrightarrow>
   tuple_loop (map subtype_of es @ rest) i pv (wire es @ tail) tuple missing =
   tuple_loop rest (i + length es) pv tail (store_from tuple i (map decoded es))
     (missing - length es)"
proof (induction es arbitrary: i tuple missing)
  case Nil
  then show ?case by (simp add: wire_Nil)
next
  case (Cons e es)
  from Cons.prems have ok: "tuple_element_ok pv e" and rest: "\<forall>e\<in>set es. tuple_element_ok pv e"
    by simp_all
  from ok have len: "length (size_field e) = 4"
    and sz: "sint (UnpackInt32 (size_field e)) = int (length (item_bytes e))"
    and dec: "fst (subtype_of e (item_bytes e) pv) = Inr (decoded e)"
    by (simp_all add: tuple_element_ok_def)
  have c1: "Consume 4 (size_field e @ item_bytes e @ wire es @ tail)
      = Some (size_field e, item_bytes e @ wire es @ tail)"
    using len by (rule Consume_append)
  have c2: "Consume (length (item_bytes e)) (item_bytes e @ wire es @ tail)
      = Some (item_bytes e, wire es @ tail)"
    by (rule Consume_append) simp
  show ?case
    using Cons.IH [OF rest, of "Suc i" "PyTuple_SetItem tuple i (decoded e)" "missing - 1"]
    by (simp add: wire_Cons c1 c2 sz dec PyTuple_SetItem_def)
qed

subsection \<open>Lists\<close>

lemma sint_scast_up32: "sint (scast (c :: 32 word) :: 64 word) = sint c"
  by (rule sint_up_scast) (simp add: is_up)

lemma sint_scast_up16: "sint (scast (c :: 16 word) :: 64 word) = sint c"
  by (rule sint_up_scast) (simp add: is_up)

lemma unat_of_sint_nonneg:
  fixes x :: "64 word"
  assumes "sint x = int n"
  shows "unat x = n"
proof -
  have "sint x < 2 ^ 63" using sint_lt [of x] by simp
  with assms have "int n < 2 ^ 64" by simp
  then have "take_bit 64 (int n) = int n"
    by (simp add: take_bit_int_eq_self)
  with assms have "uint x = int n"
    using uint_sint [of x] by simp
  then show ?thesis by (simp add: unat_eq_nat_uint)
qed

lemma unat_of_sint_neg:
  fixes x :: "64 word"
  assumes "sint x < 0"
  shows "int (unat x) = 2 ^ 64 + sint x"
proof -
  have lo: "- (2 ^ 63) \<le> sint x" using sint_ge [of x] by simp
  have "uint x = sint x mod 2 ^ 64"
    using uint_sint [of x] by (simp add: take_bit_eq_mod)
  also have "\<dots> = 2 ^ 64 + sint x"
  proof -
    have "(2 ^ 64 + sint x) mod 2 ^ 64 = 2 ^ 64 + sint x"
      using assms lo by (intro mod_pos_pos_trivial) simp_all
    then show ?thesis by simp
  qed
  finally show ?thesis by simp
qed

lemma list_item_count_ok:
  assumes "list_count_ok pv cd n"
  shows "sint (list_item_count pv cd) = int n"
  using assms
  by (simp add: list_count_ok_def list_item_count_def sint_scast_up32 sint_scast_up16
      split: if_splits)

lemma PyList_New_ok:
  assumes "sint itemCount = int n"
  shows "PyList_New itemCount = Inr (replicate n None)"
  using assms unat_of_sint_nonneg [OF assms] by (simp add: PyList_New_def)

lemma list_element_okD:
  assumes "list_element_ok d pv e"
  shows "length (size_field e) = size_width pv"
    and "list_item_size pv (size_field e) = int (length (item_bytes e))"
    and "fst (d (item_bytes e) pv) = Inr (decoded e)"
  using assms by (simp_all add: list_element_ok_def size_width_def list_item_size_def split: if_splits)

lemma list_loop_elements:
  "\<forall>e\<in>set es. list_element_ok d pv e \<Longrightarrow> i + length es \<le> itemCount \<Longrightarrow>
   list_loop d pv (size_width pv) itemCount i (wire es @ tail) list =
   list_loop d pv (size_width pv) itemCount (i + length es) tail
     (store_from list i (map decoded es))"
proof (induction es arbitrary: i list)
  case Nil
  then show ?case by (simp add: wire_Nil)
next
  case (Cons e es)
  from Cons.prems have ok: "list_element_ok d pv e" and rest: "\<forall>e\<in>set es. list_element_ok d pv e"
    and lt: "i < itemCount" and le: "Suc i + length es \<le> itemCount"
    by simp_all
  note len = list_element_okD(1) [OF ok] and sz = list_element_okD(2) [OF ok]
    and dec = list_element_okD(3) [OF ok]
  have c1: "Consume (size_width pv) (size_field e @ item_bytes e @ wire es @ tail)
      = Some (size_field e, item_bytes e @ wire es @ tail)"
    using len by (rule Consume_append)
  have c2: "Consume (length (item_bytes e)) (item_bytes e @ wire es @ tail)
      = Some (item_bytes e, wire es @ tail)"
    by (rule Consume_append) simp
  have "list_loop d pv (size_width pv) itemCount i (wire (e # es) @ tail) list =
      list_loop d pv (size_width pv) itemCount (Suc i) (wire es @ tail)
        (PyList_SetItem list i (decoded e))"
    by (subst list_loop.simps) (simp add: lt wire_Cons c1 c2 sz dec)
  also have "\<dots> = list_loop d pv (size_width pv) itemCount (Suc i + length es) tail
      (store_from (PyList_SetItem list i (decoded e)) (Suc i) (map decoded es))"
    by (rule Cons.IH [OF rest le])
  finally show ?case by (simp add: PyList_SetItem_def)
qed

lemma list_loop_done:
  "list_loop d pv w itemCount itemCount buffer list = (Inr list, buffer)"
  by (subst list_loop.simps) simp


lemma list_loop_negative:
  "i < itemCount \<Longrightarrow> length sz = w \<Longrightarrow> list_item_size pv sz < 0 \<Longrightarrow>
   list_loop d pv w itemCount i (sz @ tail) list = (Inl ValueError, tail)"
  by (subst list_loop.simps) (simp add: Consume_append)

lemma CqlListType_Deserialize_count:
  assumes "list_count_ok pv cd n"
  shows "CqlListType_Deserialize d (cd @ buffer) pv =
     (case list_loop d pv (size_width pv) n 0 buffer (replicate n None) of
        (Inl e, buffer') \<Rightarrow> (Inl e, buffer')
      | (Inr list', buffer') \<Rightarrow> (Inr (List list'), buffer'))"
proof -
  have len: "length cd = size_width pv"
    using assms by (simp add: list_count_ok_def size_width_def split: if_splits)
  have c: "Consume (size_width pv) (cd @ buffer) = Some (cd, buffer)"
    using len by (rule Consume_append)
  note cnt = list_item_count_ok [OF assms]
  show ?thesis
    using c by (simp add: CqlListType_Deserialize_def size_width_def [symmetric] list_with_count_def
        PyList_New_ok [OF cnt] unat_of_sint_nonneg [OF cnt])
qed


subsection \<open>Negative sizes, widths and versions\<close>

lemma tuple_loop_negative:
  "length sz = 4 \<Longrightarrow> sint (UnpackInt32 sz) < 0 \<Longrightarrow>
   tuple_loop (d # ds) i pv (sz @ tail) tuple missing = (Inl ValueError, tail)"
  by (simp add: Consume_append)

lemma tuple_version_forced:
  "(if pv < 3 then 3 else pv) = max 3 (pv :: int)"
  by simp

lemma CqlTupleType_Deserialize_negative:
  assumes "\<forall>e\<in>set es. tuple_element_ok (max 3 pv) e"
    and "length sz = 4" and "sint (UnpackInt32 sz) < 0"
  shows "CqlTupleType_Deserialize (map subtype_of es @ d # ds) (wire es @ sz @ tail) pv
      = (Inl ValueError, tail)"
proof -
  have "tuple_loop (map subtype_of es @ d # ds) 0 (max 3 pv) (wire es @ sz @ tail) tuple missing
      = (Inl ValueError, tail)" for tuple missing
    using tuple_loop_elements [OF assms(1), of "d # ds" 0 "sz @ tail" tuple missing]
      tuple_loop_negative [OF assms(2,3)]
    by simp
  then show ?thesis
    unfolding CqlTupleType_Deserialize_def tuple_version_forced
    by (simp add: Let_def)
qed

lemma CqlListType_Deserialize_negative:
  assumes "list_count_ok pv cd n"
    and "\<forall>e\<in>set es. list_element_ok d pv e"
    and "length es < n"
    and "list_size_negative pv sz"
  shows "CqlListType_Deserialize d (cd @ wire es @ sz @ tail) pv = (Inl ValueError, tail)"
proof -
  from assms(4) have len: "length sz = size_width pv" and neg: "list_item_size pv sz < 0"
    by (simp_all add: list_size_negative_def size_width_def list_item_size_def split: if_splits)
  have "list_loop d pv (size_width pv) n 0 (wire es @ sz @ tail) (replicate n None)
      = list_loop d pv (size_width pv) n (0 + length es) (sz @ tail)
          (store_from (replicate n None) 0 (map decoded es))"
    using assms(3) by (intro list_loop_elements [OF assms(2)]) simp
  also have "\<dots> = (Inl ValueError, tail)"
    using assms(3) len neg by (intro list_loop_negative) simp_all
  finally show ?thesis
    by (simp add: CqlListType_Deserialize_count [OF assms(1)])
qed

text \<open>
  C3. Whenever a tuple or a list reads the size field of an element and the field holds
  a negative number, the call fails with \<open>ValueError\<close> (Malformed); no value is returned
  and the size is not taken for a null element. A size field is read after any number
  of elements before it have been decoded, so the window is a run of well-formed
  elements \<open>es\<close> followed by the negative size field. For a tuple the field has four
  octets at every protocol version; for a list it has the width of the protocol
  version, and at least one more element is declared.
\<close>

theorem negative_size_is_malformed:
  "((\<forall>e\<in>set es. tuple_element_ok (max 3 pv) e) \<and> length sz = 4 \<and> sint (UnpackInt32 sz) < 0 \<longrightarrow>
      CqlTupleType_Deserialize (map subtype_of es @ d # ds) (wire es @ sz @ tail) pv
        = (Inl ValueError, tail)) \<and>
   (list_count_ok pv cd n \<and> (\<forall>e\<in>set es'. list_element_ok d' pv e) \<and> length es' < n \<and>
      list_size_negative pv sz' \<longrightarrow>
      CqlListType_Deserialize d' (cd @ wire es' @ sz' @ tail') pv = (Inl ValueError, tail'))"
  using CqlTupleType_Deserialize_negative [of es pv sz d ds tail]
    CqlListType_Deserialize_negative [of pv cd n es' d' sz' tail']
  by blast

lemma CqlTupleType_Deserialize_all:
  assumes "\<forall>e\<in>set es. tuple_element_ok (max 3 pv) e"
  shows "CqlTupleType_Deserialize (map subtype_of es) (wire es @ tail) pv
      = (Inr (Tuple (map (\<lambda>e. Some (decoded e)) es)), tail)"
proof -
  have "tuple_loop (map subtype_of es) 0 (max 3 pv) (wire es @ tail)
          (replicate (length es) None) (length es)
      = (Inr (store_from (replicate (length es) None) 0 (map decoded es), 0), tail)"
    using tuple_loop_elements [OF assms, of "[]" 0 tail "replicate (length es) None" "length es"]
    by simp
  moreover have "store_from (replicate (length es) None) 0 (map decoded es)
      = map (\<lambda>e. Some (decoded e)) es"
    using store_from_replicate [of "map decoded es" 0] by (simp add: comp_def)
  ultimately show ?thesis
    unfolding CqlTupleType_Deserialize_def tuple_version_forced
    by (simp add: Let_def PyTuple_New_def)
qed

text \<open>
  C5. A tuple is decoded at the protocol version \<open>max 3 protocolVersion\<close>, whatever
  the negotiated version is: a call at a version is the call at \<open>max 3\<close> of it; the
  size fields of the elements have four octets (\<open>tuple_element_ok\<close>), and the subtypes
  decode at \<open>max 3 protocolVersion\<close>: the values of the result are those that the
  \<^verbatim>\<open>Deserialize\<close> methods of the subtypes return at that version.
\<close>

theorem tuple_version_at_least_3:
  "((\<forall>e\<in>set es. tuple_element_ok (max 3 pv) e) \<longrightarrow>
      CqlTupleType_Deserialize (map subtype_of es) (wire es @ tail) pv
        = (Inr (Tuple (map (\<lambda>e. Some (decoded e)) es)), tail)) \<and>
   CqlTupleType_Deserialize ds buffer pv = CqlTupleType_Deserialize ds buffer (max 3 pv)"
proof -
  have "CqlTupleType_Deserialize ds buffer pv = CqlTupleType_Deserialize ds buffer (max 3 pv)"
    unfolding CqlTupleType_Deserialize_def tuple_version_forced by simp
  then show ?thesis
    using CqlTupleType_Deserialize_all [of es pv tail] by blast
qed

lemma CqlListType_Deserialize_eof:
  assumes "length buffer < size_width pv"
  shows "CqlListType_Deserialize d buffer pv = (Inl EOFError, buffer)"
  using Consume_short [OF assms]
  by (simp add: CqlListType_Deserialize_def size_width_def [symmetric])

lemma CqlListType_Deserialize_all:
  assumes "list_count_ok pv cd (length es)"
    and "\<forall>e\<in>set es. list_element_ok d pv e"
  shows "CqlListType_Deserialize d (cd @ wire es @ tail) pv =
     (Inr (List (map (\<lambda>e. Some (decoded e)) es)), tail)"
proof -
  have "list_loop d pv (size_width pv) (length es) 0 (wire es @ tail)
          (replicate (length es) None)
      = list_loop d pv (size_width pv) (length es) (0 + length es) tail
          (store_from (replicate (length es) None) 0 (map decoded es))"
    by (rule list_loop_elements [OF assms(2)]) simp
  also have "\<dots> = (Inr (store_from (replicate (length es) None) 0 (map decoded es)), tail)"
    by (simp add: list_loop_done)
  finally show ?thesis
    using store_from_replicate [of "map decoded es" 0]
    by (simp add: CqlListType_Deserialize_count [OF assms(1)] comp_def)
qed

text \<open>
  C4. A list reads its count prefix and the size field of every element with the same
  width, four octets from protocol version 3 on and two octets before
  (\<open>list_count_ok\<close>, \<open>list_element_ok\<close>), and decodes every element with the
  \<^verbatim>\<open>Deserialize\<close> method of the item type at the protocol version of the call: a
  window laid out in that way decodes to the values the item type returns at that
  version, and a window shorter than the count prefix is an \<open>EOFError\<close>.
\<close>

theorem list_field_width:
  "(list_count_ok pv cd (length es) \<and> (\<forall>e\<in>set es. list_element_ok d pv e) \<longrightarrow>
      CqlListType_Deserialize d (cd @ wire es @ tail) pv
        = (Inr (List (map (\<lambda>e. Some (decoded e)) es)), tail)) \<and>
   (length buffer < (if 3 \<le> pv then 4 else 2) \<longrightarrow>
      CqlListType_Deserialize d buffer pv = (Inl EOFError, buffer))"
  using CqlListType_Deserialize_all [of pv cd es d tail]
    CqlListType_Deserialize_eof [of buffer pv d]
  by (simp add: size_width_def)

text \<open>
  The claim C9 has the negative count of a list, converted to \<^verbatim>\<open>std::size_t\<close>, used to
  allocate the result sequence and to bound the decode loop. The conversion is as the
  claim says, but no sequence is allocated and the loop is not entered: on the count
  \<open>- 1\<close> at protocol version 3, \<^verbatim>\<open>PyList_New\<close> returns no list, and the call fails with
  \<open>SystemError\<close> for every item type, with the encoded element after the count left
  unread in the buffer. The loop itself, run with the converted count as its bound on
  the same octets, would have read the element.
\<close>

theorem list_negative_count_counterexample:
  "\<not> (\<exists>list. PyList_New (list_item_count 3 [255,255,255,255]) = Inr list) \<and>
   (\<forall>itemType. CqlListType_Deserialize itemType [255,255,255,255, 0,0,0,4, 0,0,0,1] 3
      = (Inl SystemError, [0,0,0,4, 0,0,0,1])) \<and>
   list_loop CqlInt32Type_Deserialize 3 4 (unat (list_item_count 3 [255,255,255,255])) 0
      [0,0,0,4, 0,0,0,1] [None]
      = (Inr [Some (Int32 1)], [])"
proof -
  have cnt: "list_item_count 3 [255,255,255,255] = - 1"
    by (simp add: list_item_count_def UnpackInt32_def be_word_def)
  have new: "PyList_New (- 1) = Inl SystemError"
    by (simp add: PyList_New_def)
  have call: "CqlListType_Deserialize itemType [255,255,255,255, 0,0,0,4, 0,0,0,1] 3
      = (Inl SystemError, [0,0,0,4, 0,0,0,1])" for itemType
    by (simp add: CqlListType_Deserialize_def Consume_def list_with_count_def cnt new)
  have "int (unat (- 1 :: size_t)) = 2 ^ 64 + sint (- 1 :: size_t)"
    by (rule unat_of_sint_neg) simp
  then have "int (unat (- 1 :: size_t)) = 18446744073709551615"
    by simp
  then have bound: "unat (- 1 :: size_t) = 18446744073709551615"
    by linarith
  have item: "fst (CqlInt32Type_Deserialize [0,0,0,1] 3) = Inr (Int32 1)"
    by (simp add: CqlInt32Type_Deserialize_def SIMPLE_CQL_TYPE_DESERIALIZE_def Consume_def
        UnmarshalInt32_def UnpackInt32_def be_word_def)
  have size: "list_item_size 3 [0,0,0,4] = 4"
    by (simp add: list_item_size_def UnpackInt32_def be_word_def)
  have last: "list_loop CqlInt32Type_Deserialize 3 4 18446744073709551615 (Suc 0) []
      [Some (Int32 1)] = (Inr [Some (Int32 1)], [])"
    by (subst list_loop.simps) (simp add: Consume_def)
  have loop: "list_loop CqlInt32Type_Deserialize 3 4 18446744073709551615 0
      [0,0,0,4, 0,0,0,1] [None] = (Inr [Some (Int32 1)], [])"
    by (subst list_loop.simps) (simp add: Consume_def size item PyList_SetItem_def last)
  from call loop show ?thesis
    by (simp add: cnt new bound)
qed

text \<open>
  C9, as amended. From protocol version 3 on, a negative count prefix of a list is not
  checked and is never rejected as malformed: it is converted to \<^verbatim>\<open>std::size_t\<close> by
  sign extension, which makes it the number \<open>2 ^ 64 + count\<close>, and that number is passed
  to \<^verbatim>\<open>PyList_New\<close>, which reads it as a negative \<^verbatim>\<open>Py_ssize_t\<close> and refuses it. The
  call fails with \<open>SystemError\<close>, not with \<open>ValueError\<close>, for every item type and with
  the rest of the buffer unread: no result sequence is allocated and the decode loop
  is not entered.
\<close>

theorem list_negative_count:
  assumes "3 \<le> pv" and "length cd = 4" and "sint (UnpackInt32 cd) < 0"
  shows "int (unat (list_item_count pv cd)) = 2 ^ 64 + sint (UnpackInt32 cd) \<and>
     PyList_New (list_item_count pv cd) = Inl SystemError \<and>
     fst (CqlListType_Deserialize d (cd @ buffer) pv) \<noteq> Inl ValueError \<and>
     CqlListType_Deserialize d (cd @ buffer) pv = (Inl SystemError, buffer)"
proof -
  have s: "sint (list_item_count pv cd) = sint (UnpackInt32 cd)"
    using assms(1) by (simp add: list_item_count_def sint_scast_up32)
  have neg: "sint (list_item_count pv cd) < 0"
    using s assms(3) by simp
  have 1: "int (unat (list_item_count pv cd)) = 2 ^ 64 + sint (UnpackInt32 cd)"
    using unat_of_sint_neg [OF neg] s by simp
  have 2: "PyList_New (list_item_count pv cd) = Inl SystemError"
    using neg by (simp add: PyList_New_def)
  have 3: "CqlListType_Deserialize d (cd @ buffer) pv = (Inl SystemError, buffer)"
    using assms(1) Consume_append [OF assms(2), of buffer]
    by (simp add: CqlListType_Deserialize_def list_with_count_def 2)
  from 1 2 3 show ?thesis by simp
qed

subsection \<open>Concrete windows\<close>

text \<open>The statements above, applied to windows of encoded 32-bit integers.\<close>

lemma Int32_decodes:
  "length bs = 4 \<Longrightarrow> CqlInt32Type_Deserialize bs pv = (Inr (Int32 (sint (UnpackInt32 bs))), [])"
  by (simp add: CqlInt32Type_Deserialize_def SIMPLE_CQL_TYPE_DESERIALIZE_def Consume_def
      UnmarshalInt32_def)


theorem negative_size_is_malformed_witness:
  "CqlTupleType_Deserialize [CqlInt32Type_Deserialize, CqlInt32Type_Deserialize]
     [0,0,0,4, 0,0,0,1, 255,255,255,255, 7] 1 = (Inl ValueError, [7]) \<and>
   CqlListType_Deserialize CqlInt32Type_Deserialize
     [0,2, 0,4, 0,0,0,1, 255,255, 7] 2 = (Inl ValueError, [7]) \<and>
   CqlListType_Deserialize CqlInt32Type_Deserialize
     [0,0,0,2, 0,0,0,4, 0,0,0,1, 255,255,255,255, 7] 3 = (Inl ValueError, [7])"
proof -
  define te :: tuple_element where
    "te = \<lparr>size_field = [0,0,0,4], item_bytes = [0,0,0,1], decoded = Int32 1,
            subtype_of = CqlInt32Type_Deserialize\<rparr>"
  define e2 :: frame where
    "e2 = \<lparr>size_field = [0,4], item_bytes = [0,0,0,1], decoded = Int32 1\<rparr>"
  define e3 :: frame where
    "e3 = \<lparr>size_field = [0,0,0,4], item_bytes = [0,0,0,1], decoded = Int32 1\<rparr>"
  have t: "(\<forall>e\<in>set [te]. tuple_element_ok (max 3 1) e) \<and> length [255,255,255,255 :: byte] = 4 \<and>
      sint (UnpackInt32 [255,255,255,255]) < 0"
    by (simp add: te_def tuple_element_ok_def UnpackInt32_def be_word_def Int32_decodes)
  have l2: "list_count_ok 2 [0,2] 2 \<and> (\<forall>e\<in>set [e2]. list_element_ok CqlInt32Type_Deserialize 2 e) \<and>
      length [e2] < 2 \<and> list_size_negative 2 [255,255]"
    by (simp add: e2_def list_count_ok_def list_element_ok_def list_size_negative_def
        UnpackInt16_def UnpackInt32_def be_word_def Int32_decodes)
  have l3: "list_count_ok 3 [0,0,0,2] 2 \<and> (\<forall>e\<in>set [e3]. list_element_ok CqlInt32Type_Deserialize 3 e) \<and>
      length [e3] < 2 \<and> list_size_negative 3 [255,255,255,255]"
    by (simp add: e3_def list_count_ok_def list_element_ok_def list_size_negative_def
        UnpackInt32_def be_word_def Int32_decodes)
  have 1: "CqlTupleType_Deserialize [CqlInt32Type_Deserialize, CqlInt32Type_Deserialize]
     [0,0,0,4, 0,0,0,1, 255,255,255,255, 7] 1 = (Inl ValueError, [7])"
    using negative_size_is_malformed [where es = "[te]" and pv = 1
        and sz = "[255,255,255,255]" and d = CqlInt32Type_Deserialize and ds = "[]" and tail = "[7]"] t
    by (simp add: te_def wire_def)
  have 2: "CqlListType_Deserialize CqlInt32Type_Deserialize
     [0,2, 0,4, 0,0,0,1, 255,255, 7] 2 = (Inl ValueError, [7])"
    using negative_size_is_malformed [where pv = 2 and cd = "[0,2]" and n = 2
        and es' = "[e2]" and d' = CqlInt32Type_Deserialize and sz' = "[255,255]" and tail' = "[7]"] l2
    by (simp add: e2_def wire_def)
  have 3: "CqlListType_Deserialize CqlInt32Type_Deserialize
     [0,0,0,2, 0,0,0,4, 0,0,0,1, 255,255,255,255, 7] 3 = (Inl ValueError, [7])"
    using negative_size_is_malformed [where pv = 3 and cd = "[0,0,0,2]" and n = 2
        and es' = "[e3]" and d' = CqlInt32Type_Deserialize and sz' = "[255,255,255,255]"
        and tail' = "[7]"] l3
    by (simp add: e3_def wire_def)
  from 1 2 3 show ?thesis by simp
qed


theorem list_field_width_witness:
  "CqlListType_Deserialize CqlInt32Type_Deserialize
     [0,2, 0,4, 0,0,0,1, 0,4, 0,0,0,2, 9] 2
     = (Inr (List [Some (Int32 1), Some (Int32 2)]), [9]) \<and>
   CqlListType_Deserialize CqlInt32Type_Deserialize
     [0,0,0,2, 0,0,0,4, 0,0,0,1, 0,0,0,4, 0,0,0,2, 9] 3
     = (Inr (List [Some (Int32 1), Some (Int32 2)]), [9]) \<and>
   CqlListType_Deserialize CqlInt32Type_Deserialize [0] 2 = (Inl EOFError, [0]) \<and>
   CqlListType_Deserialize CqlInt32Type_Deserialize [0,0,1] 3 = (Inl EOFError, [0,0,1])"
proof -
  define es2 :: "frame list" where
    "es2 = [\<lparr>size_field = [0,4], item_bytes = [0,0,0,1], decoded = Int32 1\<rparr>,
            \<lparr>size_field = [0,4], item_bytes = [0,0,0,2], decoded = Int32 2\<rparr>]"
  define es3 :: "frame list" where
    "es3 = [\<lparr>size_field = [0,0,0,4], item_bytes = [0,0,0,1], decoded = Int32 1\<rparr>,
            \<lparr>size_field = [0,0,0,4], item_bytes = [0,0,0,2], decoded = Int32 2\<rparr>]"
  have h2: "list_count_ok 2 [0,2] (length es2) \<and>
      (\<forall>e\<in>set es2. list_element_ok CqlInt32Type_Deserialize 2 e)"
    by (simp add: es2_def list_count_ok_def list_element_ok_def UnpackInt16_def UnpackInt32_def
        be_word_def Int32_decodes)
  have h3: "list_count_ok 3 [0,0,0,2] (length es3) \<and>
      (\<forall>e\<in>set es3. list_element_ok CqlInt32Type_Deserialize 3 e)"
    by (simp add: es3_def list_count_ok_def list_element_ok_def UnpackInt32_def
        be_word_def Int32_decodes)
  have 1: "CqlListType_Deserialize CqlInt32Type_Deserialize
     [0,2, 0,4, 0,0,0,1, 0,4, 0,0,0,2, 9] 2
     = (Inr (List [Some (Int32 1), Some (Int32 2)]), [9])"
    using list_field_width [where pv = 2 and cd = "[0,2]" and es = es2
        and d = CqlInt32Type_Deserialize and tail = "[9]"] h2
    by (simp add: es2_def wire_def)
  have 2: "CqlListType_Deserialize CqlInt32Type_Deserialize
     [0,0,0,2, 0,0,0,4, 0,0,0,1, 0,0,0,4, 0,0,0,2, 9] 3
     = (Inr (List [Some (Int32 1), Some (Int32 2)]), [9])"
    using list_field_width [where pv = 3 and cd = "[0,0,0,2]" and es = es3
        and d = CqlInt32Type_Deserialize and tail = "[9]"] h3
    by (simp add: es3_def wire_def)
  have 3: "CqlListType_Deserialize CqlInt32Type_Deserialize [0] 2 = (Inl EOFError, [0])"
    using list_field_width [where pv = 2 and buffer = "[0]" and d = CqlInt32Type_Deserialize]
    by simp
  have 4: "CqlListType_Deserialize CqlInt32Type_Deserialize [0,0,1] 3 = (Inl EOFError, [0,0,1])"
    using list_field_width [where pv = 3 and buffer = "[0,0,1]" and d = CqlInt32Type_Deserialize]
    by simp
  from 1 2 3 4 show ?thesis by simp
qed

lemma list_of_one_Int32:
  "CqlListType_Deserialize CqlInt32Type_Deserialize [0,0,0,1, 0,0,0,4, 0,0,0,7] 3
     = (Inr (List [Some (Int32 7)]), [])"
proof -
  define es :: "frame list" where
    "es = [\<lparr>size_field = [0,0,0,4], item_bytes = [0,0,0,7], decoded = Int32 7\<rparr>]"
  have count: "list_count_ok 3 [0,0,0,1] (length es)"
    by (simp add: es_def list_count_ok_def UnpackInt32_def be_word_def)
  have elems: "\<forall>e\<in>set es. list_element_ok CqlInt32Type_Deserialize 3 e"
    by (simp add: es_def list_element_ok_def UnpackInt32_def be_word_def Int32_decodes)
  from CqlListType_Deserialize_all [OF count elems, of "[]"] show ?thesis
    by (simp add: es_def wire_def)
qed

theorem tuple_version_at_least_3_witness:
  "CqlTupleType_Deserialize [CqlListType_Deserialize CqlInt32Type_Deserialize]
     [0,0,0,12, 0,0,0,1, 0,0,0,4, 0,0,0,7] 1
     = (Inr (Tuple [Some (List [Some (Int32 7)])]), [])"
proof -
  define e :: tuple_element where
    "e = \<lparr>size_field = [0,0,0,12], item_bytes = [0,0,0,1, 0,0,0,4, 0,0,0,7],
           decoded = List [Some (Int32 7)],
           subtype_of = CqlListType_Deserialize CqlInt32Type_Deserialize\<rparr>"
  have ok: "\<forall>x\<in>set [e]. tuple_element_ok (max 3 1) x"
    by (simp add: e_def tuple_element_ok_def UnpackInt32_def be_word_def list_of_one_Int32)
  from tuple_version_at_least_3 [where es = "[e]" and pv = 1 and tail = "[]",
      THEN conjunct1, THEN mp, OF ok]
  show ?thesis
    by (simp add: e_def wire_def)
qed

theorem list_negative_count_witness:
  "unat (list_item_count 3 [255,255,255,254]) = 18446744073709551614 \<and>
   PyList_New (list_item_count 3 [255,255,255,254]) = Inl SystemError \<and>
   fst (CqlListType_Deserialize CqlInt32Type_Deserialize
     [255,255,255,254, 0,0,0,4, 0,0,0,1] 3) \<noteq> Inl ValueError \<and>
   CqlListType_Deserialize CqlInt32Type_Deserialize
     [255,255,255,254, 0,0,0,4, 0,0,0,1] 3 = (Inl SystemError, [0,0,0,4, 0,0,0,1])"
proof -
  have v: "(3 :: int) \<le> 3" by simp
  have len: "length [255,255,255,254 :: byte] = 4" by simp
  have val: "sint (UnpackInt32 [255,255,255,254]) = - 2"
    by (simp add: UnpackInt32_def be_word_def)
  have neg: "sint (UnpackInt32 [255,255,255,254]) < 0"
    by (simp add: val)
  note r = list_negative_count [OF v len neg, of CqlInt32Type_Deserialize "[0,0,0,4, 0,0,0,1]"]
  from r [THEN conjunct1] have "int (unat (list_item_count 3 [255,255,255,254]))
      = 18446744073709551614"
    by (simp add: val)
  then have 1: "unat (list_item_count 3 [255,255,255,254]) = 18446744073709551614"
    by linarith
  from r have 2: "PyList_New (list_item_count 3 [255,255,255,254]) = Inl SystemError"
    and 3: "fst (CqlListType_Deserialize CqlInt32Type_Deserialize
     ([255,255,255,254] @ [0,0,0,4, 0,0,0,1]) 3) \<noteq> Inl ValueError"
    and 4: "CqlListType_Deserialize CqlInt32Type_Deserialize
     ([255,255,255,254] @ [0,0,0,4, 0,0,0,1]) 3 = (Inl SystemError, [0,0,0,4, 0,0,0,1])"
    by blast+
  from 1 2 3 4 show ?thesis by simp
qed

subsection \<open>Internet addresses\<close>

lemma CqlInetAddressType_Deserialize_bad_length:
  "length buffer \<noteq> 4 \<Longrightarrow> length buffer \<noteq> 16 \<Longrightarrow>
   CqlInetAddressType_Deserialize ntop buffer pv = (Inl ValueError, buffer)"
  by (simp add: CqlInetAddressType_Deserialize_def Residual_def)

lemma CqlInetAddressType_Deserialize_4:
  "length buffer = 4 \<Longrightarrow>
   CqlInetAddressType_Deserialize ntop buffer pv =
     (case ntop AF_INET buffer of None \<Rightarrow> Inl OSError | Some s \<Rightarrow> Inr (InetText s), [])"
  using Consume_Residual [of buffer]
  by (simp add: CqlInetAddressType_Deserialize_def Residual_def split: option.split)

lemma CqlInetAddressType_Deserialize_16:
  "length buffer = 16 \<Longrightarrow>
   CqlInetAddressType_Deserialize ntop buffer pv =
     (case ntop AF_INET6 buffer of None \<Rightarrow> Inl OSError | Some s \<Rightarrow> Inr (InetText s), [])"
  using Consume_Residual [of buffer]
  by (simp add: CqlInetAddressType_Deserialize_def Residual_def split: option.split)

text \<open>
  C8. An address window that has neither 4 nor 16 octets fails with \<open>ValueError\<close>
  (Malformed), and nothing is consumed. A window of 4 octets is converted with the
  address family \<^verbatim>\<open>AF_INET\<close> (dotted decimal), one of 16 octets with \<^verbatim>\<open>AF_INET6\<close>
  (colon-separated hexadecimal); the result is the text of the conversion, and a
  conversion that fails is an \<open>OSError\<close>. The conversion is the C library's.
\<close>

theorem inet_address_window:
  "(length buffer \<noteq> 4 \<and> length buffer \<noteq> 16 \<longrightarrow>
      CqlInetAddressType_Deserialize ntop buffer pv = (Inl ValueError, buffer)) \<and>
   (length buffer = 4 \<longrightarrow>
      CqlInetAddressType_Deserialize ntop buffer pv =
        (case ntop AF_INET buffer of
           None \<Rightarrow> Inl OSError
         | Some presentation \<Rightarrow> Inr (InetText presentation), [])) \<and>
   (length buffer = 16 \<longrightarrow>
      CqlInetAddressType_Deserialize ntop buffer pv =
        (case ntop AF_INET6 buffer of
           None \<Rightarrow> Inl OSError
         | Some presentation \<Rightarrow> Inr (InetText presentation), []))"
  using CqlInetAddressType_Deserialize_bad_length [of buffer ntop pv]
    CqlInetAddressType_Deserialize_4 [of buffer ntop pv]
    CqlInetAddressType_Deserialize_16 [of buffer ntop pv]
  by blast

lemma ntop_192_168_0_1: "posix_inet_ntop AF_INET [192,168,0,1] = Some ''192.168.0.1''"
  by (simp add: posix_inet_ntop_def dec_digits.simps)

lemma ntop_2001_db8_1:
  "posix_inet_ntop AF_INET6 [0x20,0x01,0x0d,0xb8,0,0,0,0,0,0,0,0,0,0,0,1] = Some ''2001:db8::1''"
  by (simp add: posix_inet_ntop_def inet_ntop6_def best_zero_run_def keep_best_def in_run_def
     encapsulated_v4_def hex_digits.simps)

theorem inet_address_window_witness:
  "CqlInetAddressType_Deserialize posix_inet_ntop [192,168,0,1,7] 3
     = (Inl ValueError, [192,168,0,1,7]) \<and>
   CqlInetAddressType_Deserialize posix_inet_ntop [192,168,0,1] 3
     = (Inr (InetText ''192.168.0.1''), []) \<and>
   CqlInetAddressType_Deserialize posix_inet_ntop
     [0x20,0x01,0x0d,0xb8,0,0,0,0,0,0,0,0,0,0,0,1] 3
     = (Inr (InetText ''2001:db8::1''), []) \<and>
   CqlInetAddressType_Deserialize (\<lambda>af src. None) [192,168,0,1] 3 = (Inl OSError, [])"
proof -
  have 1: "CqlInetAddressType_Deserialize posix_inet_ntop [192,168,0,1,7] 3
     = (Inl ValueError, [192,168,0,1,7])"
    using inet_address_window [of "[192,168,0,1,7]" posix_inet_ntop 3] by simp
  have 2: "CqlInetAddressType_Deserialize posix_inet_ntop [192,168,0,1] 3
     = (Inr (InetText ''192.168.0.1''), [])"
    using inet_address_window [of "[192,168,0,1]" posix_inet_ntop 3]
    by (simp add: ntop_192_168_0_1)
  have 3: "CqlInetAddressType_Deserialize posix_inet_ntop
     [0x20,0x01,0x0d,0xb8,0,0,0,0,0,0,0,0,0,0,0,1] 3
     = (Inr (InetText ''2001:db8::1''), [])"
    using inet_address_window [of "[0x20,0x01,0x0d,0xb8,0,0,0,0,0,0,0,0,0,0,0,1]"
        posix_inet_ntop 3]
    by (simp add: ntop_2001_db8_1)
  have 4: "CqlInetAddressType_Deserialize (\<lambda>af src. None) [192,168,0,1] 3 = (Inl OSError, [])"
    using inet_address_window [of "[192,168,0,1]" "\<lambda>af src. None" 3] by simp
  from 1 2 3 4 show ?thesis by simp
qed

subsection \<open>Decimals\<close>

lemma CqlDecimalType_Deserialize_eof:
  "length buffer < 4 \<Longrightarrow> CqlDecimalType_Deserialize decimalType buffer pv = (Inl EOFError, buffer)"
  by (simp add: CqlDecimalType_Deserialize_def Consume_short)

lemma CqlDecimalType_Deserialize_text:
  "length scaleData = 4 \<Longrightarrow>
   CqlDecimalType_Deserialize decimalType (scaleData @ data) pv =
     (decimalType (py_format_d (varint_value data) @ ''e'' @
        py_format_d (sint (- UnpackInt32 scaleData))), [])"
  using Consume_Residual [of data]
  by (simp add: CqlDecimalType_Deserialize_def Consume_append Let_def)

lemma sint_minus_int32:
  fixes w :: int32_t
  assumes "sint w \<noteq> - (2 ^ 31)"
  shows "sint (- w) = - sint w"
proof -
  have "- (2 ^ 31) \<le> sint w" and "sint w < 2 ^ 31"
    using sint_ge [of w] sint_lt [of w] by simp_all
  with assms have "- (2 ^ 31) \<le> - sint w" and "- sint w < 2 ^ 31"
    by simp_all
  then have "signed_take_bit 31 (- sint w) = - sint w"
    by (simp add: signed_take_bit_int_eq_self)
  then show ?thesis
    by (simp add: sint_word_minus)
qed

lemma CqlDecimalType_Deserialize_in_range:
  assumes "length scaleData = 4" and "sint (UnpackInt32 scaleData) \<noteq> - (2 ^ 31)"
  shows "CqlDecimalType_Deserialize decimalType (scaleData @ data) pv =
     (decimalType (py_format_d (varint_value data) @ ''e'' @
        py_format_d (- sint (UnpackInt32 scaleData))), [])"
  by (simp add: CqlDecimalType_Deserialize_text [OF assms(1)] sint_minus_int32 [OF assms(2)])

lemma CqlDecimalType_Deserialize_12345:
  "CqlDecimalType_Deserialize decimalType [0,0,0,2, 0x30,0x39] pv = (decimalType ''12345e-2'', [])"
  using CqlDecimalType_Deserialize_text [of "[0,0,0,2]" decimalType "[0x30,0x39]" pv]
  by (simp add: UnpackInt32_def be_word_def be_uint_def varint_value_def py_format_d_def
      dec_digits.simps)

text \<open>
  C6. The claim: a decimal with scale \<open>S\<close> and unscaled value \<open>U\<close> is built from the text
  \<^verbatim>\<open><U>e<-S>\<close>, for every window of at least four octets. The lemmas above prove it
  for every scale but one. The code negates the scale as an \<^verbatim>\<open>int32_t\<close>, and the
  negation of \<open>- 2 ^ 31\<close> overflows: for the scale \<open>- 2147483648\<close> and the unscaled value 1
  the 32-bit negation is \<open>- 2147483648\<close> again and the text is \<^verbatim>\<open>1e-2147483648\<close>, where
  the claim has \<^verbatim>\<open>1e2147483648\<close>.
\<close>

theorem decimal_scale_int_min:
  "sint (UnpackInt32 [0x80,0,0,0]) = - 2147483648 \<and>
   varint_value [1] = 1 \<and>
   CqlDecimalType_Deserialize decimalType [0x80,0,0,0, 1] protocolVersion
     = (decimalType ''1e-2147483648'', [])"
  using CqlDecimalType_Deserialize_text [of "[0x80,0,0,0]" decimalType "[1]" protocolVersion]
  by (simp add: UnpackInt32_def be_word_def be_uint_def varint_value_def py_format_d_def
      dec_digits.simps)

subsection \<open>Resolution of subtypes\<close>

lemma allocated_free: "allocated (free a h) = allocated h - {a}"
  by (simp add: free_def)

lemma fold_delete_allocated:
  assumes "\<And>r h. r \<in> set rs \<Longrightarrow> allocated (delete_reference r h) = allocated h - owned_by r"
  shows "allocated (fold delete_reference rs h) = allocated h - owned_by_all rs"
  using assms
proof (induction rs arbitrary: h)
  case Nil
  show ?case by (simp add: owned_by_all_def)
next
  case (Cons r rs)
  have "allocated (fold delete_reference rs (delete_reference r h))
      = allocated (delete_reference r h) - owned_by_all rs"
    using Cons.prems by (intro Cons.IH) simp
  also have "\<dots> = (allocated h - owned_by r) - owned_by_all rs"
    using Cons.prems [of r h] by simp
  finally show ?case
    by (auto simp: owned_by_all_def)
qed

lemma allocated_delete_destroy:
  "allocated (destroy t h) = allocated h - owned_in t"
  "allocated (delete_reference r h) = allocated h - owned_by r"
proof (induction t and r arbitrary: h and h)
  case (TupleType subtypes)
  have "allocated (fold delete_reference subtypes h) = allocated h - owned_by_all subtypes"
    by (rule fold_delete_allocated) (rule TupleType.IH)
  then show ?case by (simp add: owned_by_all_def)
next
  case (Owned a t)
  then show ?case by (auto simp: allocated_free)
qed simp_all

lemma allocated_delete_all:
  "allocated (fold delete_reference rs h) = allocated h - owned_by_all rs"
  by (rule fold_delete_allocated) (rule allocated_delete_destroy(2))

lemma owned_by_all_append: "owned_by_all (xs @ ys) = owned_by_all xs \<union> owned_by_all ys"
  by (simp add: owned_by_all_def)

lemma resolve_loop_prefix:
  "resolve_loop factory ps subtypes h =
     (case resolve_prefix factory ps h of
        (rs, None, h') \<Rightarrow> (None, subtypes @ rs, h')
      | (rs, Some e, h') \<Rightarrow> (Some e, [], fold delete_reference (subtypes @ rs) h'))"
proof (induction ps arbitrary: subtypes h)
  case Nil
  show ?case by simp
next
  case (Cons p ps)
  show ?case
  proof (cases "factory p h")
    case (Pair res h1)
    show ?thesis
    proof (cases res)
      case (Inl e)
      with Pair show ?thesis by simp
    next
      case (Inr r)
      obtain rs failure h2 where pre: "resolve_prefix factory ps h1 = (rs, failure, h2)"
        by (cases "resolve_prefix factory ps h1") auto
      from Pair Inr pre Cons.IH [of "subtypes @ [r]" h1] show ?thesis
        by (cases failure) simp_all
    qed
  qed
qed

lemma ResolveSubtypes_sequence:
  assumes "subtypes_attr d = SubtypesTuple ps \<or> subtypes_attr d = SubtypesList ps"
  shows "ResolveSubtypes factory d subtypes h = resolve_loop factory ps subtypes h"
  using assms by (auto simp: ResolveSubtypes_def)

text \<open>
  C7. The attribute \<^verbatim>\<open>subtypes\<close> of the descriptor is a tuple or a list, and the
  factory fails with \<open>e\<close> on one of its items after it has resolved the references
  \<open>rs\<close> for the items before. Then \<^verbatim>\<open>ResolveSubtypes\<close> fails with that same \<open>e\<close>, the
  vector of subtypes is empty, every reference of \<open>rs\<close> has been deleted, so that no
  instance owned by one of them is allocated any more, and neither constructor
  constructs an instance: both fail with \<open>e\<close> and allocate nothing.
\<close>

theorem ResolveSubtypes_failure:
  assumes "subtypes_attr d = SubtypesTuple ps \<or> subtypes_attr d = SubtypesList ps"
    and "resolve_prefix factory ps h = (rs, Some e, h')"
  shows "ResolveSubtypes factory d [] h = (Some e, [], fold delete_reference rs h') \<and>
     allocated (fold delete_reference rs h') = allocated h' - owned_by_all rs \<and>
     CqlTupleType_FromPython factory d h = (Inl e, fold delete_reference rs h') \<and>
     CqlListType_FromPython factory d h = (Inl e, fold delete_reference rs h')"
proof -
  have r: "ResolveSubtypes factory d [] h = (Some e, [], fold delete_reference rs h')"
    by (simp add: ResolveSubtypes_sequence [OF assms(1)] resolve_loop_prefix assms(2))
  then show ?thesis
    by (simp add: allocated_delete_all CqlTupleType_FromPython_def CqlListType_FromPython_def)
qed

text \<open>
  C10. When the subtypes of a list descriptor resolve, but not to exactly one
  reference, \<^verbatim>\<open>CqlListType::FromPython\<close> fails with \<open>TypeError\<close> and leaves the
  allocations as the resolution has left them: no resolved reference is deleted, and
  every instance that the resolved references own stays allocated, with no reference to
  it returned.
\<close>

theorem list_FromPython_leak:
  assumes "ResolveSubtypes factory d [] h = (None, subtypes, h')"
    and "length subtypes \<noteq> 1"
  shows "CqlListType_FromPython factory d h = (Inl TypeError, h') \<and>
     owned_by_all subtypes \<inter> allocated h'
       \<subseteq> allocated (snd (CqlListType_FromPython factory d h))"
  using assms by (simp add: CqlListType_FromPython_def)

subsection \<open>Resolution of concrete descriptors\<close>

text \<open>
  A factory whose cache of simple types knows the name \<^verbatim>\<open>int\<close>, and descriptors of the
  simple type, of a tuple of it and of an unknown type. The allocations start empty.
\<close>

definition example_factory :: CqlTypeFactory where
  "example_factory = \<lparr>simpleTypeNameMap = [''int'' \<mapsto> Int32Type]\<rparr>"

definition int_descriptor :: PyCqlType where
  "int_descriptor = PyCqlType ''int'' OtherKind NoSubtypes"

definition tuple_of_int_descriptor :: PyCqlType where
  "tuple_of_int_descriptor = PyCqlType ''tuple'' TupleKind (SubtypesTuple [int_descriptor])"

definition unknown_descriptor :: PyCqlType where
  "unknown_descriptor = PyCqlType ''unknown'' OtherKind NoSubtypes"

definition empty_heap :: heap where
  "empty_heap = \<lparr>allocated = {}, next_address = 0\<rparr>"

lemmas example_defs = example_factory_def int_descriptor_def tuple_of_int_descriptor_def
  unknown_descriptor_def empty_heap_def

lemma resolve_int:
  "ReferenceFromPython example_factory int_descriptor h = (Inr (Borrowed Int32Type), h)"
  by (simp add: ReferenceFromPython.simps example_defs)

lemma resolve_unknown:
  "ReferenceFromPython example_factory unknown_descriptor h = (Inl TypeError, h)"
  by (simp add: ReferenceFromPython.simps example_defs)

lemma resolve_tuple_of_int:
  "ReferenceFromPython example_factory tuple_of_int_descriptor h =
     (Inr (Owned (next_address h) (TupleType [Borrowed Int32Type])),
      h\<lparr>allocated := insert (next_address h) (allocated h),
        next_address := Suc (next_address h)\<rparr>)"
proof -
  have sub: "ResolveSubtypes (ReferenceFromPython example_factory) tuple_of_int_descriptor [] h
      = (None, [Borrowed Int32Type], h)"
    by (simp add: ResolveSubtypes_def tuple_of_int_descriptor_def resolve_int)
  have name: "simpleTypeNameMap example_factory (typename tuple_of_int_descriptor) = None"
    and kind: "kind tuple_of_int_descriptor = TupleKind"
    by (simp_all add: example_factory_def tuple_of_int_descriptor_def)
  show ?thesis
    by (subst ReferenceFromPython.simps)
      (simp add: name kind CqlTupleType_FromPython_def sub new_def)
qed

theorem ResolveSubtypes_failure_witness:
  "ResolveSubtypes (ReferenceFromPython example_factory)
     (PyCqlType ''tuple'' TupleKind (SubtypesTuple
        [tuple_of_int_descriptor, tuple_of_int_descriptor, unknown_descriptor, int_descriptor]))
     [] empty_heap
     = (Some TypeError, [], \<lparr>allocated = {}, next_address = 2\<rparr>) \<and>
   CqlTupleType_FromPython (ReferenceFromPython example_factory)
     (PyCqlType ''tuple'' TupleKind (SubtypesTuple
        [tuple_of_int_descriptor, tuple_of_int_descriptor, unknown_descriptor, int_descriptor]))
     empty_heap
     = (Inl TypeError, \<lparr>allocated = {}, next_address = 2\<rparr>)"
proof -
  let ?ps = "[tuple_of_int_descriptor, tuple_of_int_descriptor, unknown_descriptor, int_descriptor]"
  let ?d = "PyCqlType ''tuple'' TupleKind (SubtypesTuple ?ps)"
  let ?rs = "[Owned 0 (TupleType [Borrowed Int32Type]), Owned 1 (TupleType [Borrowed Int32Type])]"
  let ?h = "\<lparr>allocated = {0, 1}, next_address = 2\<rparr>"
  have seq: "subtypes_attr ?d = SubtypesTuple ?ps \<or> subtypes_attr ?d = SubtypesList ?ps"
    by simp
  have pre: "resolve_prefix (ReferenceFromPython example_factory) ?ps empty_heap
      = (?rs, Some TypeError, ?h)"
    by (simp add: resolve_tuple_of_int resolve_unknown) (auto simp: empty_heap_def)
  have del: "fold delete_reference ?rs ?h = \<lparr>allocated = {}, next_address = 2\<rparr>"
    by (simp add: free_def)
  from ResolveSubtypes_failure [OF seq pre] show ?thesis
    unfolding del by simp
qed

theorem list_FromPython_leak_witness:
  "CqlListType_FromPython (ReferenceFromPython example_factory)
     (PyCqlType ''list'' ListKind (SubtypesList [tuple_of_int_descriptor, tuple_of_int_descriptor]))
     empty_heap
     = (Inl TypeError, \<lparr>allocated = {0, 1}, next_address = 2\<rparr>)"
proof -
  let ?d = "PyCqlType ''list'' ListKind
    (SubtypesList [tuple_of_int_descriptor, tuple_of_int_descriptor])"
  let ?rs = "[Owned 0 (TupleType [Borrowed Int32Type]), Owned 1 (TupleType [Borrowed Int32Type])]"
  let ?h = "\<lparr>allocated = {0, 1}, next_address = 2\<rparr>"
  have res: "ResolveSubtypes (ReferenceFromPython example_factory) ?d [] empty_heap
      = (None, ?rs, ?h)"
    by (simp add: ResolveSubtypes_def resolve_tuple_of_int) (auto simp: empty_heap_def)
  have len: "length ?rs \<noteq> 1" by simp
  from list_FromPython_leak [OF res len] show ?thesis
    by simp
qed

subsection \<open>Exhaustion of the window in a tuple\<close>

text \<open>
  The loop that fills in \<open>Null\<close> runs over the indices below \<^verbatim>\<open>missing\<close>: it sets the
  first \<^verbatim>\<open>missing\<close> slots of the tuple.
\<close>

lemma backfill_shape:
  "m \<le> length slots \<Longrightarrow> backfill m slots = replicate m (Some Null) @ drop m slots"
proof (induction m arbitrary: slots)
  case 0
  show ?case by simp
next
  case (Suc m)
  then have lt: "m < length slots" by simp
  have "drop m (slots[m := Some Null]) = Some Null # drop (Suc m) slots"
    using lt by (simp add: drop_update_swap Cons_nth_drop_Suc [symmetric])
  moreover have "backfill m (slots[m := Some Null])
      = replicate m (Some Null) @ drop m (slots[m := Some Null])"
    using lt by (intro Suc.IH) simp
  ultimately show ?case
    by (simp add: PyTuple_SetItem_def replicate_app_Cons_same)
qed

text \<open>
  A window that is exhausted (fewer than four octets are left) after the elements \<open>es\<close>,
  with the subtypes \<open>d # ds\<close> still to come: the result has a slot for every declared
  subtype, the first \<open>Suc (length ds)\<close> of them \<open>Null\<close>. When at least one element has
  been decoded, the first slot is \<open>Null\<close> and the last slot has never been set.
\<close>

lemma CqlTupleType_Deserialize_exhausted:
  assumes "\<forall>e\<in>set es. tuple_element_ok (max 3 pv) e" and "length tail < 4"
  shows "CqlTupleType_Deserialize (map subtype_of es @ d # ds) (wire es @ tail) pv =
     (Inr (Tuple (replicate (Suc (length ds)) (Some Null) @
        drop (Suc (length ds))
          (map (\<lambda>e. Some (decoded e)) es @ replicate (Suc (length ds)) None))), tail)"
proof -
  let ?m = "Suc (length ds)"
  let ?n = "length es + ?m"
  have "tuple_loop (map subtype_of es @ d # ds) 0 (max 3 pv) (wire es @ tail)
          (replicate ?n None) ?n
      = tuple_loop (d # ds) (0 + length es) (max 3 pv) tail
          (store_from (replicate ?n None) 0 (map decoded es)) (?n - length es)"
    by (rule tuple_loop_elements [OF assms(1)])
  also have "\<dots> = (Inr (store_from (replicate ?n None) 0 (map decoded es), ?m), tail)"
    using Consume_short [OF assms(2)] by simp
  also have "store_from (replicate ?n None) 0 (map decoded es)
      = map (\<lambda>e. Some (decoded e)) es @ replicate ?m None"
    using store_from_replicate [of "map decoded es" ?m] by (simp add: comp_def)
  finally have loop: "tuple_loop (map subtype_of es @ d # ds) 0 (max 3 pv) (wire es @ tail)
          (replicate ?n None) ?n
      = (Inr (map (\<lambda>e. Some (decoded e)) es @ replicate ?m None, ?m), tail)" .
  have "backfill ?m (map (\<lambda>e. Some (decoded e)) es @ replicate ?m None)
      = replicate ?m (Some Null) @ drop ?m (map (\<lambda>e. Some (decoded e)) es @ replicate ?m None)"
    by (rule backfill_shape) simp
  with loop show ?thesis
    unfolding CqlTupleType_Deserialize_def tuple_version_forced
    by (simp add: Let_def PyTuple_New_def)
qed

lemma tuple_exhausted_slots:
  assumes "\<forall>e\<in>set es. tuple_element_ok (max 3 pv) e" and "length tail < 4" and "es \<noteq> []"
  shows "\<exists>slots. CqlTupleType_Deserialize (map subtype_of es @ d # ds) (wire es @ tail) pv
        = (Inr (Tuple slots), tail) \<and>
      length slots = length es + Suc (length ds) \<and>
      slots ! 0 = Some Null \<and> last slots = None"
proof -
  let ?m = "Suc (length ds)"
  let ?all = "map (\<lambda>e. Some (decoded e)) es @ replicate ?m None"
  let ?slots = "replicate ?m (Some Null) @ drop ?m ?all"
  have lt: "?m < length ?all"
    using assms(3) by (cases es) simp_all
  have "length (drop ?m ?all) = length es"
    by simp
  with assms(3) have ne: "drop ?m ?all \<noteq> []"
    by (metis length_0_conv)
  then have "last ?slots = last (drop ?m ?all)"
    by (rule last_appendR)
  also have "\<dots> = last ?all"
    using lt by (rule last_drop)
  also have "\<dots> = None"
    by simp
  finally have l: "last ?slots = None" .
  have h: "?slots ! 0 = Some Null"
    by simp
  have n: "length ?slots = length es + ?m"
    by simp
  from CqlTupleType_Deserialize_exhausted [OF assms(1,2), of d ds] l h n
  show ?thesis by blast
qed

text \<open>
  C1. The claim: when the window is exhausted before all declared subtypes of a tuple
  have been decoded, the positions that have not been decoded are all \<open>Null\<close>; with
  three declared subtypes and two complete elements the third element of the result is
  \<open>Null\<close>. The code: after two of three elements \<^verbatim>\<open>missing\<close> is 1, and the loop
  \<^verbatim>\<open>while (missing--) PyTuple_SetItem(tuple, missing, Py_None)\<close> stores \<open>Null\<close> at index
  0, not at index 2. On the two encoded 32-bit integers 1 and 2 the result is the tuple
  whose first slot is \<open>Null\<close> (the decoded 1 is overwritten), whose second slot is 2 and
  whose third slot was never set.
\<close>

theorem tuple_backfill_from_front:
  "Deserialize h (TupleType [Borrowed Int32Type, Borrowed Int32Type, Borrowed Int32Type])
     [0,0,0,4, 0,0,0,1, 0,0,0,4, 0,0,0,2] protocolVersion
   = (Inr (Tuple [Some Null, Some (Int32 2), None]), [])"
  by (simp add: CqlTupleType_Deserialize_def CqlInt32Type_Deserialize_def
      SIMPLE_CQL_TYPE_DESERIALIZE_def Consume_def UnpackInt32_def be_word_def
      PyTuple_New_def PyTuple_SetItem_def UnmarshalInt32_def)

end
